theory Spec2Isabelle
  imports Main "HOL-Library.Word" "HOL-Library.Multiset"
begin

section \<open>Error kinds, fatal assertions and native statuses\<close>

text \<open>
  The runtime's \<^verbatim>\<open>Error\<close> enumeration. The two headers use the members \<^verbatim>\<open>Ok\<close>,
  \<^verbatim>\<open>Internal\<close>, \<^verbatim>\<open>InvalidArgument\<close> and \<^verbatim>\<open>NotSupported\<close>; the remaining members are the
  other kinds a collaborator may hand back.
\<close>

datatype Error =
    Ok
  | Internal
  | InvalidState
  | NotSupported
  | NotImplemented
  | InvalidArgument
  | InvalidType
  | NotFound
  | MemoryAllocationFailed
  | AccessFailed
  | InvalidProgram

text \<open>
  \<^verbatim>\<open>ET_CHECK_MSG(cond, ...)\<close> ends the process when \<^verbatim>\<open>cond\<close> is false. A member function
  that contains such a check therefore has two outcomes: the process is gone (\<open>Abort\<close>), or
  the call returns.
\<close>

datatype 'a outcome = Abort | Return 'a

text \<open>The status of a call into the native XNNPACK runtime.\<close>

datatype xnn_status =
    xnn_status_success
  | xnn_status_uninitialized
  | xnn_status_invalid_parameter
  | xnn_status_invalid_state
  | xnn_status_unsupported_parameter
  | xnn_status_unsupported_hardware
  | xnn_status_out_of_memory

section \<open>The delegate executor\<close>

type_synonym uint32_t = "32 word"

text \<open>A pointer to a native runtime: \<open>None\<close> is \<^verbatim>\<open>nullptr\<close>, \<open>Some h\<close> the handle \<open>h\<close>.\<close>

type_synonym xnn_runtime_t = "nat option"

text \<open>
  \<^verbatim>\<open>struct XNNShape { size_t num_dims; size_t dim[XNN_MAX_TENSOR_DIMS]; }\<close>: the array is the
  list \<open>dim\<close>, whose length is \<^verbatim>\<open>XNN_MAX_TENSOR_DIMS\<close>.
\<close>

record XNNShape =
  num_dims :: nat
  dim :: "nat list"

text \<open>
  A tensor as the executor sees it: its sizes (of the element type \<^verbatim>\<open>SizesType\<close>, here \<open>'s\<close>)
  and the address of its data.
\<close>

record 's Tensor =
  sizes :: "'s list"
  data_ptr :: nat

text \<open>
  \<^verbatim>\<open>xnn_external_value\<close>: an external id and a data pointer; under
  \<^verbatim>\<open>ENABLE_DYNAMIC_QUANTIZATION\<close> also the number of dimensions and the dimensions.
\<close>

record xnn_external_value =
  ext_id :: uint32_t
  ext_data :: nat
  ext_shape :: "(nat \<times> nat list) option"

text \<open>
  The private members of \<^verbatim>\<open>XNNExecutor\<close> (the source's names end in an underscore). \<open>'p\<close> is
  the state of the profiler.
\<close>

record 'p XNNExecutor =
  runtime :: xnn_runtime_t
  profiler :: 'p
  input_ids :: "uint32_t list"
  output_ids :: "uint32_t list"
  external_id_args :: "uint32_t list"
  is_sorted_args_list :: bool
  externals :: "xnn_external_value list"

text \<open>\<^verbatim>\<open>XNNExecutor() = default\<close> with the members' initialisers.\<close>

definition XNNExecutor_default :: "'p \<Rightarrow> 'p XNNExecutor" where
  "XNNExecutor_default p =
     \<lparr>runtime = None, profiler = p, input_ids = [], output_ids = [],
      external_id_args = [], is_sorted_args_list = False, externals = []\<rparr>"

definition append_arg :: "'p XNNExecutor \<Rightarrow> uint32_t \<Rightarrow> 'p XNNExecutor" where
  "append_arg s ident =
     s\<lparr>external_id_args := external_id_args s @ [ident], is_sorted_args_list := False\<rparr>"

definition get_args_size :: "'p XNNExecutor \<Rightarrow> nat" where
  "get_args_size s = length (external_id_args s)"

definition getNumInputs :: "'p XNNExecutor \<Rightarrow> nat" where
  "getNumInputs s = length (input_ids s)"

definition getNumOutputs :: "'p XNNExecutor \<Rightarrow> nat" where
  "getNumOutputs s = length (output_ids s)"

text \<open>
  \<^verbatim>\<open>get_arg_index\<close>: sort when the flag is down and raise the flag, then check the index
  (\<^verbatim>\<open>ET_CHECK_MSG(i < ret, ...)\<close>) and read the element. \<^verbatim>\<open>std::sort\<close> on \<^verbatim>\<open>uint32_t\<close> is
  ascending in the unsigned order, which is the order of \<open>32 word\<close>.
\<close>

definition get_arg_index ::
  "'p XNNExecutor \<Rightarrow> nat \<Rightarrow> (uint32_t \<times> 'p XNNExecutor) outcome" where
  "get_arg_index s i =
     (let s1 = (if \<not> is_sorted_args_list s
                then s\<lparr>external_id_args := sort (external_id_args s),
                       is_sorted_args_list := True\<rparr>
                else s);
          ret = length (external_id_args s1)
      in if i < ret then Return (external_id_args s1 ! i, s1) else Abort)"

text \<open>
  A history of calls on the two argument operations, run in order on an executor. A
  fatal assertion in one call ends the run.
\<close>

datatype arg_call = Append_arg uint32_t | Get_arg_index nat

fun run_calls :: "'p XNNExecutor \<Rightarrow> arg_call list \<Rightarrow> 'p XNNExecutor outcome" where
  "run_calls s [] = Return s"
| "run_calls s (Append_arg x # cs) = run_calls (append_arg s x) cs"
| "run_calls s (Get_arg_index i # cs) =
     (case get_arg_index s i of
        Abort \<Rightarrow> Abort
      | Return (v, s') \<Rightarrow> run_calls s' cs)"

fun appended_ids :: "arg_call list \<Rightarrow> uint32_t list" where
  "appended_ids [] = []"
| "appended_ids (Append_arg x # cs) = x # appended_ids cs"
| "appended_ids (Get_arg_index i # cs) = appended_ids cs"

text \<open>The cached view is trustworthy: a raised flag means the list is sorted.\<close>

definition args_inv :: "'p XNNExecutor \<Rightarrow> bool" where
  "args_inv s = (if is_sorted_args_list s then sorted (external_id_args s) else True)"


subsection \<open>Initialisation and ownership of the native runtime\<close>

text \<open>
  What the executor calls but does not define: the native runtime (\<^verbatim>\<open>xnn_setup_runtime\<close>,
  \<^verbatim>\<open>xnn_invoke_runtime\<close>, \<^verbatim>\<open>xnn_delete_runtime\<close>) and the profiler. They are parameters of
  the model. \<open>'w\<close> is the state of the native library, which the runtime calls change and
  the profiler may read; \<open>'p\<close> is the profiler's own state; \<open>'c\<close> is what
  \<^verbatim>\<open>context.event_tracer()\<close> hands to the profiler.
\<close>

record ('w, 'p, 'c) natives =
  xnn_setup_runtime :: "nat \<Rightarrow> xnn_external_value list \<Rightarrow> 'w \<Rightarrow> xnn_status \<times> 'w"
  xnn_invoke_runtime :: "nat \<Rightarrow> 'w \<Rightarrow> xnn_status \<times> 'w"
  xnn_delete_runtime :: "nat \<Rightarrow> 'w \<Rightarrow> 'w"
  profiler_initialize :: "xnn_runtime_t \<Rightarrow> 'w \<Rightarrow> 'p \<Rightarrow> Error \<times> 'p"
  profiler_start :: "'c \<Rightarrow> 'w \<Rightarrow> 'p \<Rightarrow> Error \<times> 'p"
  profiler_end :: "'w \<Rightarrow> 'p \<Rightarrow> Error \<times> 'p"

text \<open>The calls a member function makes on its collaborators, in order, and what it logs.\<close>

datatype event =
    Setup_runtime nat "xnn_external_value list"
  | Invoke_runtime nat
  | Delete_runtime nat
  | Profiler_initialize xnn_runtime_t
  | Profiler_start
  | Profiler_end
  | Log_error string

text \<open>
  \<^verbatim>\<open>runtime_\<close> is a \<^verbatim>\<open>std::unique_ptr\<close> whose deleter is \<^verbatim>\<open>xnn_delete_runtime\<close>: giving it
  up (by assignment of another pointer, or when the executor is destroyed) calls the
  deleter on the handle it holds, unless it holds \<^verbatim>\<open>nullptr\<close>.
\<close>

definition release_runtime ::
  "('w, 'p, 'c) natives \<Rightarrow> xnn_runtime_t \<Rightarrow> 'w \<Rightarrow> 'w \<times> event list" where
  "release_runtime N held w =
     (case held of
        None \<Rightarrow> (w, [])
      | Some h \<Rightarrow> (xnn_delete_runtime N h w, [Delete_runtime h]))"

text \<open>
  \<^verbatim>\<open>initialize\<close>: the move assignment to \<^verbatim>\<open>runtime_\<close> stores the new pointer and releases the
  old one; then the profiler is initialised, and \<^verbatim>\<open>ET_CHECK_MSG(error == Error::Ok, ...)\<close>
  ends the process when that failed.
\<close>

definition initialize ::
  "('w, 'p, 'c) natives \<Rightarrow> 'w \<Rightarrow> 'p XNNExecutor \<Rightarrow> xnn_runtime_t
     \<Rightarrow> ('p XNNExecutor \<times> 'w \<times> event list) outcome" where
  "initialize N w s rt =
     (case release_runtime N (runtime s) w of
        (w1, released) \<Rightarrow>
          (case profiler_initialize N rt w1 (profiler s) of
             (error, p1) \<Rightarrow>
               if error = Ok
               then Return (s\<lparr>runtime := rt, profiler := p1\<rparr>, w1,
                            released @ [Profiler_initialize rt])
               else Abort))"

text \<open>The implicit destructor: \<^verbatim>\<open>runtime_\<close> releases what it holds.\<close>

definition destroy ::
  "('w, 'p, 'c) natives \<Rightarrow> 'w \<Rightarrow> 'p XNNExecutor \<Rightarrow> 'w \<times> event list" where
  "destroy N w s = release_runtime N (runtime s) w"

text \<open>
  The life of one executor: default construction, \<^verbatim>\<open>initialize\<close> with each pointer of a
  list in turn, destruction. The result is the state the native library is left in and
  every collaborator call made on the way.
\<close>

fun initialize_all ::
  "('w, 'p, 'c) natives \<Rightarrow> 'w \<Rightarrow> 'p XNNExecutor \<Rightarrow> xnn_runtime_t list
     \<Rightarrow> ('p XNNExecutor \<times> 'w \<times> event list) outcome" where
  "initialize_all N w s [] = Return (s, w, [])"
| "initialize_all N w s (rt # rts) =
     (case initialize N w s rt of
        Abort \<Rightarrow> Abort
      | Return (s1, w1, ev1) \<Rightarrow>
          (case initialize_all N w1 s1 rts of
             Abort \<Rightarrow> Abort
           | Return (s2, w2, ev2) \<Rightarrow> Return (s2, w2, ev1 @ ev2)))"

definition lifetime ::
  "('w, 'p, 'c) natives \<Rightarrow> 'w \<Rightarrow> 'p \<Rightarrow> xnn_runtime_t list \<Rightarrow> ('w \<times> event list) outcome" where
  "lifetime N w p rts =
     (case initialize_all N w (XNNExecutor_default p) rts of
        Abort \<Rightarrow> Abort
      | Return (s, w1, ev) \<Rightarrow>
          Return (fst (destroy N w1 s), ev @ snd (destroy N w1 s)))"

text \<open>
  \<^verbatim>\<open>xnn_delete_runtime\<close> applied to each handle of a list in turn, from the left.
\<close>

definition delete_each :: "('w, 'p, 'c) natives \<Rightarrow> 'w \<Rightarrow> nat list \<Rightarrow> 'w" where
  "delete_each N w hs = foldl (\<lambda>w1 h. xnn_delete_runtime N h w1) w hs"

fun deletions :: "event list \<Rightarrow> nat list" where
  "deletions [] = []"
| "deletions (Delete_runtime h # es) = h # deletions es"
| "deletions (e # es) = deletions es"

fun handles :: "xnn_runtime_t list \<Rightarrow> nat list" where
  "handles [] = []"
| "handles (None # rts) = handles rts"
| "handles (Some h # rts) = h # handles rts"

subsection \<open>Binding the inputs and outputs of one call\<close>

text \<open>
  \<^verbatim>\<open>set_external_input\<close> is declared in the class and defined elsewhere, so it is a
  parameter: from the binding table, the external id, the tensor and its shape it gives an
  error kind and the binding table it leaves.
\<close>

type_synonym 's set_external_input_t =
  "xnn_external_value list \<Rightarrow> uint32_t \<Rightarrow> 's Tensor \<Rightarrow> XNNShape
     \<Rightarrow> Error \<times> xnn_external_value list"

text \<open>
  The first loop of \<^verbatim>\<open>set_inputs\<close>, from index \<open>i\<close>: a binding that fails ends the call with
  \<^verbatim>\<open>Internal\<close> (\<^verbatim>\<open>ET_CHECK_OR_RETURN_ERROR(err == Error::Ok, Internal, ...)\<close>). The caller
  supplies a shape for every tensor; C++ gives no meaning to a read past the end of
  \<^verbatim>\<open>input_shapes\<close> or \<^verbatim>\<open>output_shapes\<close>.
\<close>

function bind_inputs ::
  "'s set_external_input_t \<Rightarrow> uint32_t list \<Rightarrow> 's Tensor list \<Rightarrow> XNNShape list \<Rightarrow> nat
     \<Rightarrow> xnn_external_value list \<Rightarrow> Error \<times> xnn_external_value list" where
  "bind_inputs sei ids inputs input_shapes i ext =
     (if i < length inputs
      then (if fst (sei ext (ids ! i) (inputs ! i) (input_shapes ! i)) = Ok
            then bind_inputs sei ids inputs input_shapes (Suc i)
                   (snd (sei ext (ids ! i) (inputs ! i) (input_shapes ! i)))
            else (Internal, snd (sei ext (ids ! i) (inputs ! i) (input_shapes ! i))))
      else (Ok, ext))"
  by pat_completeness auto
termination
  by (relation "measure (\<lambda>(sei, ids, inputs, input_shapes, i, ext). length inputs - i)") auto

text \<open>
  The value the second loop appends for output \<open>i\<close>; \<open>dq\<close> says whether the build defines
  \<^verbatim>\<open>ENABLE_DYNAMIC_QUANTIZATION\<close>.
\<close>

definition output_value ::
  "bool \<Rightarrow> uint32_t \<Rightarrow> 's Tensor \<Rightarrow> XNNShape \<Rightarrow> xnn_external_value" where
  "output_value dq ident t sh =
     \<lparr>ext_id = ident, ext_data = data_ptr t,
      ext_shape = (if dq then Some (num_dims sh, dim sh) else None)\<rparr>"

function bind_outputs ::
  "bool \<Rightarrow> uint32_t list \<Rightarrow> 's Tensor list \<Rightarrow> XNNShape list \<Rightarrow> nat
     \<Rightarrow> xnn_external_value list \<Rightarrow> xnn_external_value list" where
  "bind_outputs dq ids outputs output_shapes i ext =
     (if i < length outputs
      then bind_outputs dq ids outputs output_shapes (Suc i)
             (ext @ [output_value dq (ids ! i) (outputs ! i) (output_shapes ! i)])
      else ext)"
  by pat_completeness auto
termination
  by (relation "measure (\<lambda>(dq, ids, outputs, output_shapes, i, ext). length outputs - i)") auto

definition set_inputs ::
  "'s set_external_input_t \<Rightarrow> bool \<Rightarrow> 'p XNNExecutor \<Rightarrow> 's Tensor list \<Rightarrow> 's Tensor list
     \<Rightarrow> XNNShape list \<Rightarrow> XNNShape list \<Rightarrow> Error \<times> 'p XNNExecutor" where
  "set_inputs sei dq s inputs outputs input_shapes output_shapes =
     (let s0 = s\<lparr>externals := []\<rparr> in
      if length inputs \<noteq> length (input_ids s0) then (InvalidArgument, s0)
      else
        (case bind_inputs sei (input_ids s0) inputs input_shapes 0 (externals s0) of
           (err, ext) \<Rightarrow>
             let s1 = s0\<lparr>externals := ext\<rparr> in
             if err \<noteq> Ok then (err, s1)
             else if length outputs \<noteq> length (output_ids s1) then (InvalidArgument, s1)
             else (Ok, s1\<lparr>externals :=
                     bind_outputs dq (output_ids s1) outputs output_shapes 0 (externals s1)\<rparr>)))"

text \<open>
  The binding table after the inputs below index \<open>j\<close> were bound, each call of
  \<^verbatim>\<open>set_external_input\<close> working on the table the one before left, from the empty table.
\<close>

definition bound_after ::
  "'s set_external_input_t \<Rightarrow> uint32_t list \<Rightarrow> 's Tensor list \<Rightarrow> XNNShape list \<Rightarrow> nat
     \<Rightarrow> xnn_external_value list" where
  "bound_after sei ids inputs input_shapes j =
     foldl (\<lambda>ext k. snd (sei ext (ids ! k) (inputs ! k) (input_shapes ! k))) [] [0..<j]"

subsection \<open>Running the compiled graph\<close>

definition profiling_log :: "Error \<Rightarrow> string \<Rightarrow> event list" where
  "profiling_log error msg = (if error \<noteq> Ok then [Log_error msg] else [])"

text \<open>
  \<^verbatim>\<open>forward\<close>. \<^verbatim>\<open>ET_CHECK_OR_RETURN_ERROR(cond, kind, msg)\<close> logs \<^verbatim>\<open>msg\<close> and returns \<^verbatim>\<open>kind\<close>
  when \<^verbatim>\<open>cond\<close> is false. The result is the error kind, the executor, the state of the
  native library and the calls made.
\<close>

definition forward ::
  "('w, 'p, 'c) natives \<Rightarrow> 'c \<Rightarrow> 'w \<Rightarrow> 'p XNNExecutor
     \<Rightarrow> Error \<times> 'p XNNExecutor \<times> 'w \<times> event list" where
  "forward N ctx w s =
     (case runtime s of
        None \<Rightarrow> (Internal, s, w, [Log_error ''XNNPACK Delegate did not compile correctly''])
      | Some h \<Rightarrow>
          (case xnn_setup_runtime N h (externals s) w of
             (status, w1) \<Rightarrow>
               if status \<noteq> xnn_status_success
               then (Internal, s, w1,
                     [Setup_runtime h (externals s),
                      Log_error ''XNN Runtime setup failed with code: %s''])
               else
                 (case profiler_start N ctx w1 (profiler s) of
                    (error1, p1) \<Rightarrow>
                      (case xnn_invoke_runtime N h w1 of
                         (status2, w2) \<Rightarrow>
                           (case profiler_end N w2 p1 of
                              (error2, p2) \<Rightarrow>
                                let calls =
                                  [Setup_runtime h (externals s), Profiler_start]
                                  @ profiling_log error1 ''Failed to start profiling: %u.''
                                  @ [Invoke_runtime h, Profiler_end]
                                  @ profiling_log error2 ''Failed to end profiling: %u.''
                                in
                                if status2 \<noteq> xnn_status_success
                                then (Internal, s\<lparr>profiler := p2\<rparr>, w2,
                                      calls @ [Log_error ''XNN Runtime invoke failed with code: %s''])
                                else (Ok, s\<lparr>profiler := p2\<rparr>, w2, calls))))))"

text \<open>The collaborator calls among the events, the log lines left out.\<close>

fun is_log :: "event \<Rightarrow> bool" where
  "is_log (Log_error msg) = True"
| "is_log e = False"

definition calls_of :: "event list \<Rightarrow> event list" where
  "calls_of es = filter (\<lambda>e. \<not> is_log e) es"

subsection \<open>Resizing an output tensor\<close>

text \<open>
  The tensor class and its helpers are declared outside the two headers. What
  \<^verbatim>\<open>resizeOutput\<close> uses of them is a parameter: \<open>to_sizes\<close> is
  \<^verbatim>\<open>static_cast<exec_aten::SizesType>\<close> from \<^verbatim>\<open>size_t\<close>, \<open>of_sizes\<close> is the \<^verbatim>\<open>size_t\<close> that the
  comparison \<^verbatim>\<open>output_tensor->size(i) == output_shape->dim[i]\<close> makes of a size, and
  \<open>resize_tensor\<close> is the tensor helper of that name, which gives an error kind and the
  tensor it leaves. \<^verbatim>\<open>dim()\<close> is the number of sizes.
\<close>

function same_shape_from ::
  "('s \<Rightarrow> nat) \<Rightarrow> 's Tensor \<Rightarrow> XNNShape \<Rightarrow> nat \<Rightarrow> nat \<Rightarrow> bool \<Rightarrow> bool" where
  "same_shape_from of_sizes t sh n_dim i same_shape =
     (if i < n_dim \<and> same_shape
      then same_shape_from of_sizes t sh n_dim (Suc i) (of_sizes (sizes t ! i) = dim sh ! i)
      else same_shape)"
  by pat_completeness auto
termination
  by (relation "measure (\<lambda>(of_sizes, t, sh, n_dim, i, same_shape). n_dim - i)") auto

function expected_output_size_from ::
  "(nat \<Rightarrow> 's) \<Rightarrow> XNNShape \<Rightarrow> nat \<Rightarrow> nat \<Rightarrow> 's list \<Rightarrow> 's list" where
  "expected_output_size_from to_sizes sh n_dim i acc =
     (if i < n_dim
      then expected_output_size_from to_sizes sh n_dim (Suc i) (acc @ [to_sizes (dim sh ! i)])
      else acc)"
  by pat_completeness auto
termination
  by (relation "measure (\<lambda>(to_sizes, sh, n_dim, i, acc). n_dim - i)") auto

definition resizeOutput ::
  "(nat \<Rightarrow> 's) \<Rightarrow> ('s \<Rightarrow> nat) \<Rightarrow> ('s Tensor \<Rightarrow> 's list \<Rightarrow> Error \<times> 's Tensor)
     \<Rightarrow> 's Tensor \<Rightarrow> XNNShape \<Rightarrow> Error \<times> 's Tensor" where
  "resizeOutput to_sizes of_sizes resize_tensor output_tensor output_shape =
     (let n_dim = length (sizes output_tensor) in
      if n_dim \<noteq> num_dims output_shape then (NotSupported, output_tensor)
      else if same_shape_from of_sizes output_tensor output_shape n_dim 0 True
      then (Ok, output_tensor)
      else resize_tensor output_tensor
             (expected_output_size_from to_sizes output_shape n_dim 0 []))"

section \<open>The module facade\<close>

text \<open>
  \<^verbatim>\<open>Module::execute(method_name, input)\<close> is declared in the class and defined elsewhere, so
  it is a parameter: from the module, the method name and the inputs it gives a result
  (an error kind or the output values) and the module it leaves (it may load the program
  and the method). \<open>'m\<close> is the module's state, \<open>'v\<close> the type \<^verbatim>\<open>EValue\<close>.
\<close>

type_synonym ('m, 'v) execute_t = "'m \<Rightarrow> string \<Rightarrow> 'v list \<Rightarrow> (Error + 'v list) \<times> 'm"

definition Module_execute_no_input :: "('m, 'v) execute_t \<Rightarrow> 'm \<Rightarrow> string \<Rightarrow> (Error + 'v list) \<times> 'm" where
  "Module_execute_no_input execute m method_name = execute m method_name []"

text \<open>
  \<^verbatim>\<open>Module::get\<close>: \<^verbatim>\<open>ET_UNWRAP\<close> returns the error of a failed result from the enclosing
  function and otherwise yields the value.
\<close>

definition Module_get :: "('m, 'v) execute_t \<Rightarrow> 'm \<Rightarrow> string \<Rightarrow> 'v list \<Rightarrow> (Error + 'v) \<times> 'm" where
  "Module_get execute m method_name input =
     (case execute m method_name input of
        (Inl error, m1) \<Rightarrow> (Inl error, m1)
      | (Inr result, m1) \<Rightarrow>
          if result = [] then (Inl InvalidArgument, m1) else (Inr (result ! 0), m1))"

definition Module_get_no_input :: "('m, 'v) execute_t \<Rightarrow> 'm \<Rightarrow> string \<Rightarrow> (Error + 'v) \<times> 'm" where
  "Module_get_no_input execute m method_name = Module_get execute m method_name []"

definition Module_forward :: "('m, 'v) execute_t \<Rightarrow> 'm \<Rightarrow> 'v list \<Rightarrow> (Error + 'v list) \<times> 'm" where
  "Module_forward execute m input = execute m ''forward'' input"

definition Module_forward_no_input :: "('m, 'v) execute_t \<Rightarrow> 'm \<Rightarrow> (Error + 'v list) \<times> 'm" where
  "Module_forward_no_input execute m = Module_forward execute m []"

section \<open>Example values\<close>

text \<open>
  Concrete collaborators and values at which the theorems below are instantiated: an
  executor compiled with one input (external id 0) and one output (external id 1) that
  still holds a binding of an earlier call, a tensor of shape [1, 4], shapes of rank 2 and
  1, a \<^verbatim>\<open>set_external_input\<close> that binds the data pointer and rejects a tensor whose rank
  is not the shape's, a program whose only method \<^verbatim>\<open>forward\<close> returns its inputs, a native
  library whose state holds the table last set up, the number of invocations and the
  handles deleted, whose setup rejects an empty table and whose runtime runs once and then
  reports an invalid state, with a profiler that cannot be initialised on \<^verbatim>\<open>nullptr\<close>, fails
  to start and notes the number of invocations it sees at each start and stop, and a
  \<^verbatim>\<open>resize_tensor\<close> for tensors with room for 16 elements.
\<close>

definition input_value :: "uint32_t \<Rightarrow> 's Tensor \<Rightarrow> XNNShape \<Rightarrow> xnn_external_value" where
  "input_value ident t sh = \<lparr>ext_id = ident, ext_data = data_ptr t, ext_shape = None\<rparr>"

definition checking_set_external_input :: "int set_external_input_t" where
  "checking_set_external_input ext ident t sh =
     (if length (sizes t) = num_dims sh then (Ok, ext @ [input_value ident t sh])
      else (InvalidArgument, ext))"

definition example_executor :: "nat list XNNExecutor" where
  "example_executor =
     \<lparr>runtime = Some 7, profiler = [], input_ids = [0], output_ids = [1],
      external_id_args = [0, 1], is_sorted_args_list = True,
      externals = [\<lparr>ext_id = 9, ext_data = 900, ext_shape = None\<rparr>]\<rparr>"

definition example_tensor :: "int Tensor" where
  "example_tensor = \<lparr>sizes = [1, 4], data_ptr = 4096\<rparr>"

definition example_shape :: XNNShape where
  "example_shape = \<lparr>num_dims = 2, dim = [1, 4, 0, 0, 0, 0]\<rparr>"

definition example_shape_rank1 :: XNNShape where
  "example_shape_rank1 = \<lparr>num_dims = 1, dim = [4, 0, 0, 0, 0, 0]\<rparr>"

definition identity_program_execute :: "(nat, int) execute_t" where
  "identity_program_execute m method_name input =
     (if method_name = ''forward'' then (Inr input, Suc m) else (Inl NotFound, m))"

record native_state =
  bound :: "xnn_external_value list"
  invocations :: nat
  deleted :: "nat list"

definition example_native_state :: native_state where
  "example_native_state = \<lparr>bound = [], invocations = 0, deleted = []\<rparr>"

definition example_native_state_used :: native_state where
  "example_native_state_used = \<lparr>bound = [], invocations = 1, deleted = []\<rparr>"

definition example_natives :: "(native_state, nat list, unit) natives" where
  "example_natives =
     \<lparr>xnn_setup_runtime =
        (\<lambda>h ext w. if ext = [] then (xnn_status_invalid_parameter, w)
                    else (xnn_status_success, w\<lparr>bound := ext\<rparr>)),
      xnn_invoke_runtime =
        (\<lambda>h w. (if invocations w = 0 then xnn_status_success else xnn_status_invalid_state,
                 w\<lparr>invocations := Suc (invocations w)\<rparr>)),
      xnn_delete_runtime = (\<lambda>h w. w\<lparr>deleted := deleted w @ [h]\<rparr>),
      profiler_initialize = (\<lambda>rt w p. (if rt = None then InvalidArgument else Ok, [])),
      profiler_start = (\<lambda>c w p. (InvalidState, p @ [invocations w])),
      profiler_end = (\<lambda>w p. (Ok, p @ [invocations w]))\<rparr>"

text \<open>
  \<^verbatim>\<open>SizesType\<close> as a signed 32-bit integer: the conversion from \<^verbatim>\<open>size_t\<close> keeps the low 32
  bits, and a size read back through \<^verbatim>\<open>ssize_t\<close> and compared with a \<^verbatim>\<open>size_t\<close> is its sign
  extension to 64 bits, read unsigned.
\<close>

definition static_cast_int32 :: "nat \<Rightarrow> 32 word" where
  "static_cast_int32 d = of_nat d"

definition size_t_of_int32 :: "32 word \<Rightarrow> nat" where
  "size_t_of_int32 v = unat (scast v :: 64 word)"

definition example_tensor32 :: "32 word Tensor" where
  "example_tensor32 = \<lparr>sizes = [1, 4], data_ptr = 4096\<rparr>"

definition example_shape_wide :: XNNShape where
  "example_shape_wide = \<lparr>num_dims = 2, dim = [4294967298, 3, 0, 0, 0, 0]\<rparr>"

definition example_resize_tensor ::
  "('s \<Rightarrow> nat) \<Rightarrow> 's Tensor \<Rightarrow> 's list \<Rightarrow> Error \<times> 's Tensor" where
  "example_resize_tensor of_sizes t new_sizes =
     (if length new_sizes = length (sizes t) \<and> prod_list (map of_sizes new_sizes) \<le> 16
      then (Ok, t\<lparr>sizes := new_sizes\<rparr>) else (NotSupported, t))"

definition example_shape_2x3 :: XNNShape where
  "example_shape_2x3 = \<lparr>num_dims = 2, dim = [2, 3, 0, 0, 0, 0]\<rparr>"

declare bind_inputs.simps [simp del] bind_outputs.simps [simp del]
declare same_shape_from.simps [simp del] expected_output_size_from.simps [simp del]

section \<open>Sorted lookup of external ids\<close>

lemma args_inv_default: "args_inv (XNNExecutor_default p)"
  by (simp add: args_inv_def XNNExecutor_default_def)

lemma args_inv_append_arg: "args_inv (append_arg s x)"
  by (simp add: args_inv_def append_arg_def)

lemma mset_append_arg:
  "mset (external_id_args (append_arg s x)) = mset (external_id_args s) + {#x#}"
  by (simp add: append_arg_def)

lemma get_arg_index_Return:
  assumes "get_arg_index s i = Return (v, s')"
  shows "i < length (external_id_args s)"
    and "is_sorted_args_list s'"
    and "mset (external_id_args s') = mset (external_id_args s)"
    and "args_inv s \<Longrightarrow> external_id_args s' = sort (external_id_args s)"
    and "v = external_id_args s' ! i"
  using assms
  by (auto simp: get_arg_index_def Let_def args_inv_def sort_key_id_if_sorted
      split: if_splits)

lemma get_arg_index_in_range:
  assumes "i < length (external_id_args s)" and "args_inv s"
  shows "\<exists>s'. get_arg_index s i = Return (sort (external_id_args s) ! i, s')
          \<and> is_sorted_args_list s' \<and> external_id_args s' = sort (external_id_args s)"
  using assms
  by (auto simp: get_arg_index_def Let_def args_inv_def sort_key_id_if_sorted)

lemma args_inv_get_arg_index:
  assumes "get_arg_index s i = Return (v, s')" and "args_inv s"
  shows "args_inv s'"
  using get_arg_index_Return(4) [OF assms] by (simp add: args_inv_def)

lemma run_calls_mset:
  "run_calls s cs = Return s' \<Longrightarrow> args_inv s \<Longrightarrow>
     args_inv s' \<and> mset (external_id_args s') = mset (external_id_args s) + mset (appended_ids cs)"
proof (induction s cs rule: run_calls.induct)
  case (1 s)
  then show ?case by simp
next
  case (2 s x cs)
  then show ?case
    by (simp add: args_inv_append_arg mset_append_arg)
next
  case (3 s i cs)
  from "3.prems"(1) obtain v s1 where g: "get_arg_index s i = Return (v, s1)"
    and r: "run_calls s1 cs = Return s'"
    by (auto split: outcome.splits)
  have inv1: "args_inv s1" using args_inv_get_arg_index [OF g "3.prems"(2)] .
  have "args_inv s' \<and> mset (external_id_args s') = mset (external_id_args s1) + mset (appended_ids cs)"
    using "3.IH" [OF g refl r inv1] .
  then show ?case using get_arg_index_Return(3) [OF g] by simp
qed

lemma sort_eq_of_mset: "mset xs = mset ys \<Longrightarrow> sort xs = sort (ys :: uint32_t list)"
  by (rule properties_for_sort) simp_all

lemma run_calls_default_args:
  assumes "run_calls (XNNExecutor_default p) cs = Return s"
  shows "args_inv s" and "sort (external_id_args s) = sort (appended_ids cs)"
    and "length (external_id_args s) = length (appended_ids cs)"
proof -
  have m: "args_inv s \<and> mset (external_id_args s) = mset (appended_ids cs)"
    using run_calls_mset [OF assms args_inv_default]
    by (simp add: XNNExecutor_default_def)
  show "args_inv s" using m by simp
  show "sort (external_id_args s) = sort (appended_ids cs)"
    by (rule sort_eq_of_mset) (simp add: m)
  show "length (external_id_args s) = length (appended_ids cs)"
    using m mset_eq_length [of "external_id_args s" "appended_ids cs"] by simp
qed


text \<open>
  Claim C1. Take a fresh executor and any history of \<^verbatim>\<open>append_arg\<close> and \<^verbatim>\<open>get_arg_index\<close>
  calls that ran to its end. Then \<^verbatim>\<open>get_arg_index(i)\<close>, for \<open>i\<close> below the number of appended
  ids, returns element \<open>i\<close> of the appended ids sorted in ascending order, whatever the order
  of the appends, and leaves the list sorted with the flag raised. A further \<^verbatim>\<open>append_arg\<close>
  lowers the flag, and the next \<^verbatim>\<open>get_arg_index\<close> answers from the ids sorted anew, the new
  id included.
\<close>

theorem sorted_external_id_lookup:
  assumes "run_calls (XNNExecutor_default p) cs = Return s"
    and "i < length (appended_ids cs)"
  shows "\<exists>s'. get_arg_index s i = Return (sort (appended_ids cs) ! i, s')
          \<and> is_sorted_args_list s'
          \<and> external_id_args s' = sort (appended_ids cs)
          \<and> \<not> is_sorted_args_list (append_arg s' x)
          \<and> (\<forall>j < Suc (length (appended_ids cs)).
                \<exists>s''. get_arg_index (append_arg s' x) j
                        = Return (sort (appended_ids cs @ [x]) ! j, s'')
                      \<and> is_sorted_args_list s'')"
proof -
  note d = run_calls_default_args [OF assms(1)]
  have "i < length (external_id_args s)" using assms(2) d(3) by simp
  from get_arg_index_in_range [OF this d(1)] obtain s'
    where g: "get_arg_index s i = Return (sort (external_id_args s) ! i, s')"
      and f: "is_sorted_args_list s'"
      and e: "external_id_args s' = sort (external_id_args s)"
    by blast
  have e': "external_id_args s' = sort (appended_ids cs)" using e d(2) by simp
  have nf: "\<not> is_sorted_args_list (append_arg s' x)" by (simp add: append_arg_def)
  have after: "\<exists>s''. get_arg_index (append_arg s' x) j
                 = Return (sort (appended_ids cs @ [x]) ! j, s'') \<and> is_sorted_args_list s''"
    if "j < Suc (length (appended_ids cs))" for j
  proof -
    have a: "external_id_args (append_arg s' x) = sort (appended_ids cs) @ [x]"
      using e' by (simp add: append_arg_def)
    have l: "j < length (external_id_args (append_arg s' x))" using that a by simp
    have "sort (sort (appended_ids cs) @ [x]) = sort (appended_ids cs @ [x])"
      by (rule sort_eq_of_mset) simp
    then show ?thesis
      using get_arg_index_in_range [OF l args_inv_append_arg] a by auto
  qed
  show ?thesis
    using g f e' nf after d(2) by auto
qed

theorem sorted_external_id_lookup_witness:
  "run_calls (XNNExecutor_default ()) [Append_arg 5, Append_arg 1, Append_arg 3]
     = Return \<lparr>runtime = None, profiler = (), input_ids = [], output_ids = [],
               external_id_args = [5, 1, 3], is_sorted_args_list = False, externals = []\<rparr>
   \<and> (1::nat) < length (appended_ids [Append_arg 5, Append_arg 1, Append_arg 3])
   \<and> (\<exists>s'. get_arg_index \<lparr>runtime = None, profiler = (), input_ids = [], output_ids = [],
               external_id_args = [5, 1, 3], is_sorted_args_list = False, externals = []\<rparr> 1
              = Return (3, s')
            \<and> is_sorted_args_list s'
            \<and> external_id_args s' = [1, 3, 5]
            \<and> \<not> is_sorted_args_list (append_arg s' 2)
            \<and> (\<exists>s''. get_arg_index (append_arg s' 2) 1 = Return (2, s'')
                   \<and> is_sorted_args_list s''))"
proof -
  let ?cs = "[Append_arg 5, Append_arg 1, Append_arg 3]"
  let ?S = "\<lparr>runtime = None, profiler = (), input_ids = [], output_ids = [],
               external_id_args = [5, 1, 3 :: uint32_t], is_sorted_args_list = False,
               externals = []\<rparr>"
  have h1: "run_calls (XNNExecutor_default ()) ?cs = Return ?S"
    by (simp add: XNNExecutor_default_def append_arg_def)
  have h2: "(1::nat) < length (appended_ids ?cs)" by simp
  have srt: "sort (appended_ids ?cs) = [1, 3, 5]" by code_simp
  have srt2: "sort (appended_ids ?cs @ [2]) = [1, 2, 3, 5]" by code_simp
  from sorted_external_id_lookup [OF h1 h2, of 2] obtain s' where
    a: "get_arg_index ?S 1 = Return (sort (appended_ids ?cs) ! 1, s')"
    and b: "is_sorted_args_list s'"
    and c: "external_id_args s' = sort (appended_ids ?cs)"
    and d: "\<not> is_sorted_args_list (append_arg s' 2)"
    and e: "\<forall>j < Suc (length (appended_ids ?cs)).
                \<exists>s''. get_arg_index (append_arg s' 2) j
                        = Return (sort (appended_ids ?cs @ [2]) ! j, s'')
                      \<and> is_sorted_args_list s''"
    by blast
  from e have e1: "\<exists>s''. get_arg_index (append_arg s' 2) 1
                        = Return (sort (appended_ids ?cs @ [2]) ! 1, s'')
                      \<and> is_sorted_args_list s''"
    by simp
  have a': "get_arg_index ?S 1 = Return (3, s')" using a unfolding srt by simp
  have c': "external_id_args s' = [1, 3, 5]" using c unfolding srt by simp
  have e': "\<exists>s''. get_arg_index (append_arg s' 2) 1 = Return (2, s'')
                      \<and> is_sorted_args_list s''"
    using e1 unfolding srt2 by simp
  show ?thesis using h1 h2 a' b c' d e' by blast
qed

text \<open>
  Claim C8. In every state of the executor, \<^verbatim>\<open>get_arg_index(i)\<close> with \<open>i\<close> at or beyond the
  number of registered ids ends the process in the fatal assertion; with \<open>i\<close> below that
  number it returns, and what it returns is one of the registered ids.
\<close>

theorem get_arg_index_out_of_range_aborts:
  "(get_args_size s \<le> i \<longrightarrow> get_arg_index s i = Abort)
   \<and> (i < get_args_size s \<longrightarrow>
        (\<exists>v s'. get_arg_index s i = Return (v, s') \<and> v \<in> set (external_id_args s)))"
proof (intro conjI impI)
  assume "get_args_size s \<le> i"
  then show "get_arg_index s i = Abort"
    by (simp add: get_arg_index_def get_args_size_def Let_def)
next
  assume lt: "i < get_args_size s"
  show "\<exists>v s'. get_arg_index s i = Return (v, s') \<and> v \<in> set (external_id_args s)"
  proof (cases "is_sorted_args_list s")
    case True
    then show ?thesis using lt
      by (simp add: get_arg_index_def get_args_size_def Let_def)
  next
    case False
    have "sort (external_id_args s) ! i \<in> set (external_id_args s)"
      using lt nth_mem [of i "sort (external_id_args s)"] by (simp add: get_args_size_def)
    then show ?thesis using False lt
      by (simp add: get_arg_index_def get_args_size_def Let_def)
  qed
qed

theorem get_arg_index_out_of_range_aborts_witness:
  "get_args_size \<lparr>runtime = None, profiler = (), input_ids = [], output_ids = [],
               external_id_args = [5, 1, 3], is_sorted_args_list = False, externals = []\<rparr> \<le> 3
   \<and> get_arg_index \<lparr>runtime = None, profiler = (), input_ids = [], output_ids = [],
               external_id_args = [5, 1, 3], is_sorted_args_list = False, externals = []\<rparr> 3 = Abort
   \<and> 2 < get_args_size \<lparr>runtime = None, profiler = (), input_ids = [], output_ids = [],
               external_id_args = [5, 1, 3], is_sorted_args_list = False, externals = []\<rparr>
   \<and> (\<exists>v s'. get_arg_index \<lparr>runtime = None, profiler = (), input_ids = [], output_ids = [],
               external_id_args = [5, 1, 3], is_sorted_args_list = False, externals = []\<rparr> 2
              = Return (v, s') \<and> v \<in> set [5, 1, 3])"
proof -
  let ?S = "\<lparr>runtime = None, profiler = (), input_ids = [], output_ids = [],
               external_id_args = [5, 1, 3 :: uint32_t], is_sorted_args_list = False,
               externals = []\<rparr>"
  have h1: "get_args_size ?S \<le> 3" by (simp add: get_args_size_def)
  have h2: "2 < get_args_size ?S" by (simp add: get_args_size_def)
  show ?thesis
    using h1 h2 get_arg_index_out_of_range_aborts [of ?S 3]
      get_arg_index_out_of_range_aborts [of ?S 2]
    by simp
qed

section \<open>Initialisation and the ownership of the runtime\<close>

lemma deletions_append: "deletions (xs @ ys) = deletions xs @ deletions ys"
  by (induction xs rule: deletions.induct) simp_all

lemma handles_Cons: "handles (rt # rts) = handles [rt] @ handles rts"
  by (cases rt) simp_all

lemma delete_each_append:
  "delete_each N w (xs @ ys) = delete_each N (delete_each N w xs) ys"
  by (simp add: delete_each_def)

lemma release_runtime_cases:
  "release_runtime N held w
     = (case held of None \<Rightarrow> (w, [])
        | Some h \<Rightarrow> (xnn_delete_runtime N h w, [Delete_runtime h]))"
  by (simp add: release_runtime_def)

lemma deletions_release: "deletions (snd (release_runtime N held w)) = handles [held]"
  by (cases held) (simp_all add: release_runtime_def)

lemma state_after_release:
  "fst (release_runtime N held w) = delete_each N w (handles [held])"
  by (cases held) (simp_all add: release_runtime_def delete_each_def)

lemma count_list_distinct:
  "distinct xs \<Longrightarrow> x \<in> set xs \<Longrightarrow> count_list xs x = 1"
  by (induction xs) auto

lemma initialize_cases:
  "initialize N w s rt =
     (if fst (profiler_initialize N rt
                (case runtime s of None \<Rightarrow> w | Some h \<Rightarrow> xnn_delete_runtime N h w)
                (profiler s)) = Ok
      then Return
             (s\<lparr>runtime := rt,
                profiler :=
                  snd (profiler_initialize N rt
                         (case runtime s of None \<Rightarrow> w | Some h \<Rightarrow> xnn_delete_runtime N h w)
                         (profiler s))\<rparr>,
              case runtime s of None \<Rightarrow> w | Some h \<Rightarrow> xnn_delete_runtime N h w,
              (case runtime s of None \<Rightarrow> [] | Some h \<Rightarrow> [Delete_runtime h])
              @ [Profiler_initialize rt])
      else Abort)"
proof (cases "runtime s")
  case None
  obtain e p1 where p: "profiler_initialize N rt w (profiler s) = (e, p1)"
    by (cases "profiler_initialize N rt w (profiler s)")
  show ?thesis by (simp add: initialize_def release_runtime_def None p)
next
  case (Some h)
  obtain e p1 where p: "profiler_initialize N rt (xnn_delete_runtime N h w) (profiler s) = (e, p1)"
    by (cases "profiler_initialize N rt (xnn_delete_runtime N h w) (profiler s)")
  show ?thesis by (simp add: initialize_def release_runtime_def Some p)
qed

lemma initialize_Return:
  assumes "initialize N w s rt = Return (s1, w1, ev)"
  shows "runtime s1 = rt" and "deletions ev = handles [runtime s]"
    and "w1 = delete_each N w (handles [runtime s])"
proof -
  show "runtime s1 = rt"
    using assms by (auto simp: initialize_cases split: if_splits)
  show "deletions ev = handles [runtime s]"
    using assms by (cases "runtime s") (auto simp: initialize_cases split: if_splits)
  show "w1 = delete_each N w (handles [runtime s])"
    using assms
    by (cases "runtime s") (auto simp: initialize_cases delete_each_def split: if_splits)
qed

lemma initialize_total:
  assumes "\<And>w0 p. fst (profiler_initialize N rt w0 p) = Ok"
  shows "\<exists>s1 w1 ev. initialize N w s rt = Return (s1, w1, ev)"
  by (simp add: initialize_cases assms)

lemma initialize_all_released:
  "initialize_all N w s rts = Return (s', w', ev) \<Longrightarrow>
   deletions ev @ handles [runtime s'] = handles (runtime s # rts)
   \<and> delete_each N w' (handles [runtime s']) = delete_each N w (handles (runtime s # rts))"
proof (induction rts arbitrary: w s ev)
  case Nil
  then show ?case by simp
next
  case (Cons rt rts)
  from Cons.prems obtain s1 w1 ev1 s2 w2 ev2
    where i: "initialize N w s rt = Return (s1, w1, ev1)"
      and a: "initialize_all N w1 s1 rts = Return (s2, w2, ev2)"
      and e: "ev = ev1 @ ev2" and s: "s2 = s'" and w: "w2 = w'"
    by (auto split: outcome.splits)
  note ih = Cons.IH [OF a [unfolded s w]]
  have r: "runtime s1 = rt" using initialize_Return(1) [OF i] .
  have "deletions ev @ handles [runtime s']
        = deletions ev1 @ (deletions ev2 @ handles [runtime s'])"
    by (simp add: e deletions_append)
  also have "\<dots> = handles [runtime s] @ handles (rt # rts)"
    using initialize_Return(2) [OF i] ih r by simp
  also have "\<dots> = handles (runtime s # rt # rts)"
    by (rule handles_Cons [symmetric])
  finally have one: "deletions ev @ handles [runtime s'] = handles (runtime s # rt # rts)" .
  have "delete_each N w' (handles [runtime s']) = delete_each N w1 (handles (rt # rts))"
    using ih r by simp
  also have "\<dots> = delete_each N w (handles [runtime s] @ handles (rt # rts))"
    using initialize_Return(3) [OF i] by (simp add: delete_each_append)
  also have "\<dots> = delete_each N w (handles (runtime s # rt # rts))"
    using handles_Cons [of "runtime s" "rt # rts"] by simp
  finally show ?case using one by simp
qed

lemma initialize_all_total:
  "(\<And>rt w0 p. rt \<in> set rts \<Longrightarrow> fst (profiler_initialize N rt w0 p) = Ok) \<Longrightarrow>
   \<exists>s' w' ev. initialize_all N w s rts = Return (s', w', ev)"
proof (induction rts arbitrary: w s)
  case Nil
  then show ?case by simp
next
  case (Cons rt rts)
  obtain s1 w1 ev1 where i: "initialize N w s rt = Return (s1, w1, ev1)"
    using initialize_total [of N rt w s] Cons.prems by auto
  obtain s2 w2 ev2 where a: "initialize_all N w1 s1 rts = Return (s2, w2, ev2)"
    using Cons.IH [of w1 s1] Cons.prems by auto
  show ?case by (simp add: i a)
qed

lemma lifetime_released:
  assumes "lifetime N w p rts = Return (w', ev)"
  shows "deletions ev = handles rts" and "w' = delete_each N w (handles rts)"
proof -
  from assms obtain s w1 ev1
    where a: "initialize_all N w (XNNExecutor_default p) rts = Return (s, w1, ev1)"
      and e: "ev = ev1 @ snd (destroy N w1 s)" and w: "w' = fst (destroy N w1 s)"
    by (auto simp: lifetime_def split: outcome.splits)
  note r = initialize_all_released [OF a]
  have "deletions ev1 @ handles [runtime s] = handles rts"
    using r by (simp add: XNNExecutor_default_def)
  then show "deletions ev = handles rts"
    using e by (simp add: deletions_append destroy_def deletions_release)
  have "delete_each N w1 (handles [runtime s]) = delete_each N w (handles rts)"
    using r by (simp add: XNNExecutor_default_def)
  then show "w' = delete_each N w (handles rts)"
    using w by (simp add: destroy_def state_after_release)
qed

text \<open>
  Claim C10. \<^verbatim>\<open>initialize(runtime)\<close> first hands the handle the executor holds, if any, to
  \<^verbatim>\<open>xnn_delete_runtime\<close> and takes the given one; it then ends the process in the fatal
  assertion when the profiler fails to initialise with the given handle (in \<^verbatim>\<open>forward\<close> a
  profiler failure is only logged), and otherwise returns with the given handle held.
  Destroying the executor applies \<^verbatim>\<open>xnn_delete_runtime\<close> to the handle held. Over the life
  of an executor whose profiler always initialises, from construction through any sequence
  of \<^verbatim>\<open>initialize\<close> calls to destruction, the native library is left in the state that
  \<^verbatim>\<open>xnn_delete_runtime\<close> produces when applied to the non-null handles given to \<^verbatim>\<open>initialize\<close>,
  each once for each time it was given, in that order; so when the handles given are
  distinct, each is deleted exactly once.
\<close>

theorem initialize_owns_runtime:
  "(fst (profiler_initialize N rt
           (case runtime s of None \<Rightarrow> w | Some h \<Rightarrow> xnn_delete_runtime N h w)
           (profiler s)) \<noteq> Ok
      \<longrightarrow> initialize N w s rt = Abort)
   \<and> (fst (profiler_initialize N rt
           (case runtime s of None \<Rightarrow> w | Some h \<Rightarrow> xnn_delete_runtime N h w)
           (profiler s)) = Ok
      \<longrightarrow> initialize N w s rt
          = Return
              (s\<lparr>runtime := rt,
                 profiler :=
                   snd (profiler_initialize N rt
                          (case runtime s of None \<Rightarrow> w | Some h \<Rightarrow> xnn_delete_runtime N h w)
                          (profiler s))\<rparr>,
               case runtime s of None \<Rightarrow> w | Some h \<Rightarrow> xnn_delete_runtime N h w,
               (case runtime s of None \<Rightarrow> [] | Some h \<Rightarrow> [Delete_runtime h])
               @ [Profiler_initialize rt]))
   \<and> destroy N w s
       = (case runtime s of None \<Rightarrow> (w, [])
          | Some h \<Rightarrow> (xnn_delete_runtime N h w, [Delete_runtime h]))
   \<and> ((\<forall>r \<in> set rts. \<forall>w0 p. fst (profiler_initialize N r w0 p) = Ok)
      \<longrightarrow> (\<exists>ev. lifetime N w p0 rts
                  = Return (foldl (\<lambda>w1 h. xnn_delete_runtime N h w1) w (handles rts), ev)
             \<and> deletions ev = handles rts
             \<and> (distinct (handles rts)
                  \<longrightarrow> (\<forall>h \<in> set (handles rts). count_list (deletions ev) h = 1))))"
proof (intro conjI impI)
  show "destroy N w s
       = (case runtime s of None \<Rightarrow> (w, [])
          | Some h \<Rightarrow> (xnn_delete_runtime N h w, [Delete_runtime h]))"
    by (simp add: destroy_def release_runtime_cases)
next
  assume ok: "\<forall>r \<in> set rts. \<forall>w0 p. fst (profiler_initialize N r w0 p) = Ok"
  obtain s' w' ev1
    where a: "initialize_all N w (XNNExecutor_default p0) rts = Return (s', w', ev1)"
    using initialize_all_total [of rts N w "XNNExecutor_default p0"] ok by blast
  have l: "lifetime N w p0 rts
           = Return (fst (destroy N w' s'), ev1 @ snd (destroy N w' s'))"
    by (simp add: lifetime_def a)
  note r = lifetime_released [OF l]
  have "lifetime N w p0 rts
          = Return (foldl (\<lambda>w1 h. xnn_delete_runtime N h w1) w (handles rts),
                    ev1 @ snd (destroy N w' s'))"
    using l r(2) by (simp add: delete_each_def)
  then show "\<exists>ev. lifetime N w p0 rts
                  = Return (foldl (\<lambda>w1 h. xnn_delete_runtime N h w1) w (handles rts), ev)
             \<and> deletions ev = handles rts
             \<and> (distinct (handles rts)
                  \<longrightarrow> (\<forall>h \<in> set (handles rts). count_list (deletions ev) h = 1))"
    using r(1) by (auto simp: count_list_distinct)
qed (simp_all add: initialize_cases)

theorem initialize_owns_runtime_witness:
  "fst (profiler_initialize example_natives None
          (case runtime example_executor of None \<Rightarrow> example_native_state
           | Some h \<Rightarrow> xnn_delete_runtime example_natives h example_native_state)
          (profiler example_executor)) \<noteq> Ok
   \<and> initialize example_natives example_native_state example_executor None = Abort
   \<and> fst (profiler_initialize example_natives (Some 8)
          (case runtime example_executor of None \<Rightarrow> example_native_state
           | Some h \<Rightarrow> xnn_delete_runtime example_natives h example_native_state)
          (profiler example_executor)) = Ok
   \<and> initialize example_natives example_native_state example_executor (Some 8)
       = Return (example_executor\<lparr>runtime := Some 8\<rparr>,
                 example_native_state\<lparr>deleted := [7]\<rparr>,
                 [Delete_runtime 7, Profiler_initialize (Some 8)])
   \<and> destroy example_natives example_native_state example_executor
       = (example_native_state\<lparr>deleted := [7]\<rparr>, [Delete_runtime 7])
   \<and> (\<exists>ev. lifetime example_natives example_native_state [] [Some 3, Some 5, Some 4]
               = Return (example_native_state\<lparr>deleted := [3, 5, 4]\<rparr>, ev)
         \<and> deletions ev = [3, 5, 4]
         \<and> count_list (deletions ev) 3 = 1 \<and> count_list (deletions ev) 5 = 1
         \<and> count_list (deletions ev) 4 = 1)"
proof -
  note ex = example_natives_def example_executor_def example_native_state_def
  have a: "fst (profiler_initialize example_natives None
          (case runtime example_executor of None \<Rightarrow> example_native_state
           | Some h \<Rightarrow> xnn_delete_runtime example_natives h example_native_state)
          (profiler example_executor)) \<noteq> Ok"
    by (simp add: ex)
  have b: "fst (profiler_initialize example_natives (Some 8)
          (case runtime example_executor of None \<Rightarrow> example_native_state
           | Some h \<Rightarrow> xnn_delete_runtime example_natives h example_native_state)
          (profiler example_executor)) = Ok"
    by (simp add: ex)
  have c: "\<forall>r \<in> set [Some 3, Some 5, Some 4]. \<forall>w0 p.
             fst (profiler_initialize example_natives r w0 p) = Ok"
    by (simp add: ex)
  have hs: "handles [Some 3, Some 5, Some 4] = [3, 5, 4]" by simp
  have fl: "foldl (\<lambda>w1 h. xnn_delete_runtime example_natives h w1) example_native_state
              [3, 5, 4] = example_native_state\<lparr>deleted := [3, 5, 4]\<rparr>"
    by (simp add: ex)
  note t1 = initialize_owns_runtime [where N = example_natives and rt = None
      and s = example_executor and w = example_native_state]
  note t2 = initialize_owns_runtime [where N = example_natives and rt = "Some 8"
      and s = example_executor and w = example_native_state
      and rts = "[Some 3, Some 5, Some 4]" and ?p0.0 = "[]"]
  have r1: "initialize example_natives example_native_state example_executor None = Abort"
    using t1 a by blast
  have "initialize example_natives example_native_state example_executor (Some 8)
       = Return
              (example_executor\<lparr>runtime := Some 8,
                 profiler :=
                   snd (profiler_initialize example_natives (Some 8)
                          (case runtime example_executor of None \<Rightarrow> example_native_state
                           | Some h \<Rightarrow> xnn_delete_runtime example_natives h example_native_state)
                          (profiler example_executor))\<rparr>,
               case runtime example_executor of None \<Rightarrow> example_native_state
               | Some h \<Rightarrow> xnn_delete_runtime example_natives h example_native_state,
               (case runtime example_executor of None \<Rightarrow> []
                | Some h \<Rightarrow> [Delete_runtime h])
               @ [Profiler_initialize (Some 8)])"
    using t2 b by blast
  then have r2: "initialize example_natives example_native_state example_executor (Some 8)
       = Return (example_executor\<lparr>runtime := Some 8\<rparr>,
                 example_native_state\<lparr>deleted := [7]\<rparr>,
                 [Delete_runtime 7, Profiler_initialize (Some 8)])"
    by (simp add: ex)
  have "destroy example_natives example_native_state example_executor
       = (case runtime example_executor of None \<Rightarrow> (example_native_state, [])
          | Some h \<Rightarrow> (xnn_delete_runtime example_natives h example_native_state,
                       [Delete_runtime h]))"
    using t2 by blast
  then have r3: "destroy example_natives example_native_state example_executor
       = (example_native_state\<lparr>deleted := [7]\<rparr>, [Delete_runtime 7])"
    by (simp add: ex)
  have r4: "\<exists>ev. lifetime example_natives example_native_state [] [Some 3, Some 5, Some 4]
               = Return (example_native_state\<lparr>deleted := [3, 5, 4]\<rparr>, ev)
         \<and> deletions ev = [3, 5, 4]
         \<and> count_list (deletions ev) 3 = 1 \<and> count_list (deletions ev) 5 = 1
         \<and> count_list (deletions ev) 4 = 1"
  proof -
    have dst: "distinct [3, 5, 4 :: nat]" by simp
    from t2 c obtain ev
      where l: "lifetime example_natives example_native_state [] [Some 3, Some 5, Some 4]
                = Return (foldl (\<lambda>w1 h. xnn_delete_runtime example_natives h w1)
                            example_native_state [3, 5, 4], ev)"
      and d: "deletions ev = [3, 5, 4]"
      and o: "distinct [3, 5, 4 :: nat]
              \<longrightarrow> (\<forall>h \<in> set [3, 5, 4]. count_list (deletions ev) h = 1)"
      unfolding hs by blast
    from o dst have "\<forall>h \<in> set [3, 5, 4]. count_list (deletions ev) h = 1" by blast
    then have "count_list (deletions ev) 3 = 1 \<and> count_list (deletions ev) 5 = 1
         \<and> count_list (deletions ev) 4 = 1"
      by simp
    then show ?thesis using l d unfolding fl by blast
  qed
  show ?thesis using a r1 b r2 r3 r4 by blast
qed

section \<open>The binding table of one call\<close>

lemma bind_inputs_error: "fst (bind_inputs sei ids inputs ish i ext) \<in> {Ok, Internal}"
proof (induction sei ids inputs ish i ext rule: bind_inputs.induct)
  case (1 sei ids inputs ish i ext)
  show ?case
    using "1.IH" by (subst bind_inputs.simps) simp
qed

lemma bind_inputs_all_Ok:
  "(\<And>j e. j < length inputs \<Longrightarrow> fst (sei e (ids ! j) (inputs ! j) (ish ! j)) = Ok)
   \<Longrightarrow> fst (bind_inputs sei ids inputs ish i ext) = Ok"
proof (induction sei ids inputs ish i ext rule: bind_inputs.induct)
  case (1 sei ids inputs ish i ext)
  show ?case
    using "1.IH" "1.prems" by (subst bind_inputs.simps) simp
qed


lemma bind_outputs_table:
  "bind_outputs dq ids outputs osh i ext
     = ext @ map (\<lambda>j. output_value dq (ids ! j) (outputs ! j) (osh ! j)) [i..<length outputs]"
proof (induction dq ids outputs osh i ext rule: bind_outputs.induct)
  case (1 dq ids outputs osh i ext)
  show ?case
  proof (cases "i < length outputs")
    case False
    then show ?thesis by (subst bind_outputs.simps) simp
  next
    case True
    then show ?thesis
      using "1.IH" [OF True] by (subst bind_outputs.simps) (simp add: upt_conv_Cons)
  qed
qed

lemma set_inputs_clears:
  "set_inputs sei dq (s\<lparr>externals := old\<rparr>) inputs outputs ish osh
     = set_inputs sei dq s inputs outputs ish osh"
  by (simp add: set_inputs_def)

lemma set_inputs_cases:
  "set_inputs sei dq s inputs outputs ish osh =
     (if length inputs \<noteq> length (input_ids s) then (InvalidArgument, s\<lparr>externals := []\<rparr>)
      else if fst (bind_inputs sei (input_ids s) inputs ish 0 []) \<noteq> Ok
      then (Internal, s\<lparr>externals := snd (bind_inputs sei (input_ids s) inputs ish 0 [])\<rparr>)
      else if length outputs \<noteq> length (output_ids s)
      then (InvalidArgument, s\<lparr>externals := snd (bind_inputs sei (input_ids s) inputs ish 0 [])\<rparr>)
      else (Ok, s\<lparr>externals :=
              bind_outputs dq (output_ids s) outputs osh 0
                (snd (bind_inputs sei (input_ids s) inputs ish 0 []))\<rparr>))"
proof -
  have e: "fst (bind_inputs sei (input_ids s) inputs ish 0 []) \<noteq> Ok
           \<Longrightarrow> fst (bind_inputs sei (input_ids s) inputs ish 0 []) = Internal"
    using bind_inputs_error [of sei "input_ids s" inputs ish 0 "[]"] by auto
  show ?thesis
    using e by (auto simp: set_inputs_def Let_def split: prod.splits)
qed


lemma bound_after_Suc:
  "bound_after sei ids inputs ish (Suc j)
     = snd (sei (bound_after sei ids inputs ish j) (ids ! j) (inputs ! j) (ish ! j))"
  by (simp add: bound_after_def)

lemma bind_inputs_fails_at:
  "ext = bound_after sei ids inputs ish i \<Longrightarrow> i \<le> j \<Longrightarrow> j < length inputs \<Longrightarrow>
   (\<And>k. i \<le> k \<Longrightarrow> k < j \<Longrightarrow>
      fst (sei (bound_after sei ids inputs ish k) (ids ! k) (inputs ! k) (ish ! k)) = Ok) \<Longrightarrow>
   fst (sei (bound_after sei ids inputs ish j) (ids ! j) (inputs ! j) (ish ! j)) \<noteq> Ok \<Longrightarrow>
   fst (bind_inputs sei ids inputs ish i ext) = Internal"
proof (induction sei ids inputs ish i ext rule: bind_inputs.induct)
  case (1 sei ids inputs ish i ext)
  have lt: "i < length inputs" using "1.prems"(2,3) by simp
  show ?case
  proof (cases "i = j")
    case True
    then have "fst (sei ext (ids ! i) (inputs ! i) (ish ! i)) \<noteq> Ok"
      using "1.prems"(1,5) by simp
    then show ?thesis using lt by (subst bind_inputs.simps) simp
  next
    case False
    then have ij: "i < j" using "1.prems"(2) by simp
    have ok: "fst (sei ext (ids ! i) (inputs ! i) (ish ! i)) = Ok"
      using "1.prems"(4) [of i] ij "1.prems"(1) by simp
    have nxt: "snd (sei ext (ids ! i) (inputs ! i) (ish ! i))
               = bound_after sei ids inputs ish (Suc i)"
      using "1.prems"(1) by (simp add: bound_after_Suc)
    have "fst (bind_inputs sei ids inputs ish (Suc i)
                 (snd (sei ext (ids ! i) (inputs ! i) (ish ! i)))) = Internal"
      using "1.IH" [OF lt ok nxt _ "1.prems"(3) _ "1.prems"(5)] ij "1.prems"(4) by simp
    then show ?thesis using lt ok by (subst bind_inputs.simps) simp
  qed
qed

lemma bind_inputs_succeeds:
  "ext = bound_after sei ids inputs ish i \<Longrightarrow> i \<le> length inputs \<Longrightarrow>
   (\<And>k. i \<le> k \<Longrightarrow> k < length inputs \<Longrightarrow>
      fst (sei (bound_after sei ids inputs ish k) (ids ! k) (inputs ! k) (ish ! k)) = Ok) \<Longrightarrow>
   bind_inputs sei ids inputs ish i ext = (Ok, bound_after sei ids inputs ish (length inputs))"
proof (induction sei ids inputs ish i ext rule: bind_inputs.induct)
  case (1 sei ids inputs ish i ext)
  show ?case
  proof (cases "i < length inputs")
    case False
    then have "i = length inputs" using "1.prems"(2) by simp
    then show ?thesis using "1.prems"(1) by (subst bind_inputs.simps) simp
  next
    case True
    have ok: "fst (sei ext (ids ! i) (inputs ! i) (ish ! i)) = Ok"
      using "1.prems"(3) [of i] True "1.prems"(1) by simp
    have nxt: "snd (sei ext (ids ! i) (inputs ! i) (ish ! i))
               = bound_after sei ids inputs ish (Suc i)"
      using "1.prems"(1) by (simp add: bound_after_Suc)
    have "bind_inputs sei ids inputs ish (Suc i)
            (snd (sei ext (ids ! i) (inputs ! i) (ish ! i)))
          = (Ok, bound_after sei ids inputs ish (length inputs))"
      using "1.IH" [OF True ok nxt] True "1.prems"(3) by simp
    then show ?thesis using True ok by (subst bind_inputs.simps) simp
  qed
qed

lemma bind_inputs_from_empty_fails:
  assumes "\<exists>j<length inputs.
             fst (sei (bound_after sei ids inputs ish j) (ids ! j) (inputs ! j) (ish ! j)) \<noteq> Ok"
  shows "fst (bind_inputs sei ids inputs ish 0 []) = Internal"
proof -
  let ?P = "\<lambda>j. j < length inputs
      \<and> fst (sei (bound_after sei ids inputs ish j) (ids ! j) (inputs ! j) (ish ! j)) \<noteq> Ok"
  from assms have "\<exists>j. ?P j" by blast
  then obtain j where j: "?P j" and least: "\<And>k. k < j \<Longrightarrow> \<not> ?P k"
    using exists_least_iff [of ?P] by blast
  have e: "[] = bound_after sei ids inputs ish 0" by (simp add: bound_after_def)
  have earlier: "fst (sei (bound_after sei ids inputs ish k) (ids ! k) (inputs ! k) (ish ! k)) = Ok"
    if "0 \<le> k" and "k < j" for k
    using least [OF that(2)] that(2) j by simp
  show ?thesis
    using bind_inputs_fails_at [OF e _ conjunct1 [OF j] earlier conjunct2 [OF j]] by simp
qed

lemma bind_inputs_from_empty_succeeds:
  assumes "\<forall>j<length inputs.
             fst (sei (bound_after sei ids inputs ish j) (ids ! j) (inputs ! j) (ish ! j)) = Ok"
  shows "bind_inputs sei ids inputs ish 0 []
           = (Ok, bound_after sei ids inputs ish (length inputs))"
proof -
  have e: "[] = bound_after sei ids inputs ish 0" by (simp add: bound_after_def)
  show ?thesis
    using bind_inputs_succeeds [OF e] assms by simp
qed

text \<open>
  Claim C3 as stated fails: with the input count right, one input whose binding is
  rejected and the output count wrong, \<^verbatim>\<open>set_inputs\<close> returns \<^verbatim>\<open>Internal\<close>, not
  \<^verbatim>\<open>InvalidArgument\<close>: the output count is examined only after every input is bound.
\<close>

theorem set_inputs_output_count_counterexample:
  "length ([] :: int Tensor list) \<noteq> length (output_ids example_executor)
   \<and> length [example_tensor] = length (input_ids example_executor)
   \<and> fst (set_inputs checking_set_external_input False example_executor
            [example_tensor] [] [example_shape_rank1] []) = Internal
   \<and> fst (set_inputs checking_set_external_input False example_executor
            [example_tensor] [] [example_shape_rank1] []) \<noteq> InvalidArgument"
  by (simp add: set_inputs_def example_executor_def example_tensor_def example_shape_rank1_def
      checking_set_external_input_def bind_inputs.simps)

text \<open>
  Claim C3, amended. \<^verbatim>\<open>set_inputs\<close> first clears the binding table (its result does not
  depend on the bindings held before). It fails with \<^verbatim>\<open>InvalidArgument\<close>, the table empty,
  when the number of inputs differs from the declared one. When the input count is right
  and the binding of some input fails (\<^verbatim>\<open>set_external_input\<close>, called on the table that
  the inputs before it left, returns an error), it fails with \<^verbatim>\<open>Internal\<close>, whatever the
  number of outputs. When the input count is right and every input's binding succeeds, it
  fails with \<^verbatim>\<open>InvalidArgument\<close> if the number of outputs differs from the declared one,
  the table holding what the input bindings left; otherwise it returns \<^verbatim>\<open>Ok\<close> and the table
  holds what the input bindings left followed by one binding for each output, in order.
\<close>

theorem set_inputs_error_kinds:
  "set_inputs sei dq (s\<lparr>externals := old\<rparr>) inputs outputs ish osh
     = set_inputs sei dq (s\<lparr>externals := []\<rparr>) inputs outputs ish osh
   \<and> (length inputs \<noteq> length (input_ids s)
        \<longrightarrow> set_inputs sei dq s inputs outputs ish osh
            = (InvalidArgument, s\<lparr>externals := []\<rparr>))
   \<and> (length inputs = length (input_ids s)
        \<and> (\<exists>j<length inputs.
              fst (sei (bound_after sei (input_ids s) inputs ish j)
                     (input_ids s ! j) (inputs ! j) (ish ! j)) \<noteq> Ok)
        \<longrightarrow> fst (set_inputs sei dq s inputs outputs ish osh) = Internal)
   \<and> (length inputs = length (input_ids s)
        \<and> (\<forall>j<length inputs.
              fst (sei (bound_after sei (input_ids s) inputs ish j)
                     (input_ids s ! j) (inputs ! j) (ish ! j)) = Ok)
        \<and> length outputs \<noteq> length (output_ids s)
        \<longrightarrow> set_inputs sei dq s inputs outputs ish osh
            = (InvalidArgument,
               s\<lparr>externals := bound_after sei (input_ids s) inputs ish (length inputs)\<rparr>))
   \<and> (length inputs = length (input_ids s)
        \<and> (\<forall>j<length inputs.
              fst (sei (bound_after sei (input_ids s) inputs ish j)
                     (input_ids s ! j) (inputs ! j) (ish ! j)) = Ok)
        \<and> length outputs = length (output_ids s)
        \<longrightarrow> set_inputs sei dq s inputs outputs ish osh
            = (Ok,
               s\<lparr>externals :=
                   bound_after sei (input_ids s) inputs ish (length inputs)
                   @ map (\<lambda>j. output_value dq (output_ids s ! j) (outputs ! j) (osh ! j))
                       [0..<length outputs]\<rparr>))"
proof (intro conjI impI)
  show "set_inputs sei dq (s\<lparr>externals := old\<rparr>) inputs outputs ish osh
     = set_inputs sei dq (s\<lparr>externals := []\<rparr>) inputs outputs ish osh"
    by (simp add: set_inputs_clears)
next
  assume "length inputs \<noteq> length (input_ids s)"
  then show "set_inputs sei dq s inputs outputs ish osh
            = (InvalidArgument, s\<lparr>externals := []\<rparr>)"
    by (simp add: set_inputs_cases)
next
  assume a: "length inputs = length (input_ids s)
        \<and> (\<exists>j<length inputs.
              fst (sei (bound_after sei (input_ids s) inputs ish j)
                     (input_ids s ! j) (inputs ! j) (ish ! j)) \<noteq> Ok)"
  have "fst (bind_inputs sei (input_ids s) inputs ish 0 []) = Internal"
    using bind_inputs_from_empty_fails [of inputs sei "input_ids s" ish] a by blast
  then show "fst (set_inputs sei dq s inputs outputs ish osh) = Internal"
    using a by (simp add: set_inputs_cases)
next
  assume a: "length inputs = length (input_ids s)
        \<and> (\<forall>j<length inputs.
              fst (sei (bound_after sei (input_ids s) inputs ish j)
                     (input_ids s ! j) (inputs ! j) (ish ! j)) = Ok)
        \<and> length outputs \<noteq> length (output_ids s)"
  have "bind_inputs sei (input_ids s) inputs ish 0 []
           = (Ok, bound_after sei (input_ids s) inputs ish (length inputs))"
    using bind_inputs_from_empty_succeeds [of inputs sei "input_ids s" ish] a by blast
  then show "set_inputs sei dq s inputs outputs ish osh
            = (InvalidArgument,
               s\<lparr>externals := bound_after sei (input_ids s) inputs ish (length inputs)\<rparr>)"
    using a by (simp add: set_inputs_cases)
next
  assume a: "length inputs = length (input_ids s)
        \<and> (\<forall>j<length inputs.
              fst (sei (bound_after sei (input_ids s) inputs ish j)
                     (input_ids s ! j) (inputs ! j) (ish ! j)) = Ok)
        \<and> length outputs = length (output_ids s)"
  have "bind_inputs sei (input_ids s) inputs ish 0 []
           = (Ok, bound_after sei (input_ids s) inputs ish (length inputs))"
    using bind_inputs_from_empty_succeeds [of inputs sei "input_ids s" ish] a by blast
  then show "set_inputs sei dq s inputs outputs ish osh
            = (Ok,
               s\<lparr>externals :=
                   bound_after sei (input_ids s) inputs ish (length inputs)
                   @ map (\<lambda>j. output_value dq (output_ids s ! j) (outputs ! j) (osh ! j))
                       [0..<length outputs]\<rparr>)"
    using a by (simp add: set_inputs_cases bind_outputs_table)
qed

theorem set_inputs_error_kinds_witness:
  "length ([] :: int Tensor list) \<noteq> length (input_ids example_executor)
   \<and> set_inputs checking_set_external_input False example_executor
        [] [example_tensor] [] [example_shape]
      = (InvalidArgument, example_executor\<lparr>externals := []\<rparr>)
   \<and> length [example_tensor] = length (input_ids example_executor)
   \<and> fst (checking_set_external_input
            (bound_after checking_set_external_input (input_ids example_executor)
               [example_tensor] [example_shape_rank1] 0)
            (input_ids example_executor ! 0) ([example_tensor] ! 0)
            ([example_shape_rank1] ! 0)) \<noteq> Ok
   \<and> fst (set_inputs checking_set_external_input False example_executor
            [example_tensor] [example_tensor] [example_shape_rank1] [example_shape]) = Internal
   \<and> length ([] :: int Tensor list) \<noteq> length (output_ids example_executor)
   \<and> set_inputs checking_set_external_input False example_executor
        [example_tensor] [] [example_shape] []
      = (InvalidArgument,
         example_executor\<lparr>externals := [\<lparr>ext_id = 0, ext_data = 4096, ext_shape = None\<rparr>]\<rparr>)
   \<and> length [example_tensor] = length (output_ids example_executor)
   \<and> set_inputs checking_set_external_input False example_executor
        [example_tensor] [example_tensor] [example_shape] [example_shape]
      = (Ok,
         example_executor\<lparr>externals :=
           [\<lparr>ext_id = 0, ext_data = 4096, ext_shape = None\<rparr>,
            \<lparr>ext_id = 1, ext_data = 4096, ext_shape = None\<rparr>]\<rparr>)"
proof -
  note ex = example_executor_def example_tensor_def example_shape_def
    example_shape_rank1_def checking_set_external_input_def input_value_def
  have n_in: "length [example_tensor] = length (input_ids example_executor)"
    and n_in': "length ([] :: int Tensor list) \<noteq> length (input_ids example_executor)"
    and n_out: "length [example_tensor] = length (output_ids example_executor)"
    and n_out': "length ([] :: int Tensor list) \<noteq> length (output_ids example_executor)"
    by (simp_all add: ex)
  have bad: "fst (checking_set_external_input
            (bound_after checking_set_external_input (input_ids example_executor)
               [example_tensor] [example_shape_rank1] 0)
            (input_ids example_executor ! 0) ([example_tensor] ! 0)
            ([example_shape_rank1] ! 0)) \<noteq> Ok"
    by (simp add: ex)
  have bad': "\<exists>j<length [example_tensor].
      fst (checking_set_external_input
            (bound_after checking_set_external_input (input_ids example_executor)
               [example_tensor] [example_shape_rank1] j)
            (input_ids example_executor ! j) ([example_tensor] ! j)
            ([example_shape_rank1] ! j)) \<noteq> Ok"
    using bad by auto
  have good: "\<forall>j<length [example_tensor].
      fst (checking_set_external_input
            (bound_after checking_set_external_input (input_ids example_executor)
               [example_tensor] [example_shape] j)
            (input_ids example_executor ! j) ([example_tensor] ! j)
            ([example_shape] ! j)) = Ok"
    by (simp add: ex)
  have tab: "bound_after checking_set_external_input (input_ids example_executor)
               [example_tensor] [example_shape] (length [example_tensor])
             = [\<lparr>ext_id = 0, ext_data = 4096, ext_shape = None\<rparr>]"
    by (simp add: ex bound_after_def)
  have outs: "map (\<lambda>j. output_value False (output_ids example_executor ! j)
                       ([example_tensor] ! j) ([example_shape] ! j))
                [0..<length [example_tensor]]
              = [\<lparr>ext_id = 1, ext_data = 4096, ext_shape = None\<rparr>]"
    by (simp add: ex output_value_def)
  note t1 = set_inputs_error_kinds [where sei = checking_set_external_input and dq = False
      and s = example_executor and old = "[]" and inputs = "[]"
      and outputs = "[example_tensor]" and ish = "[]" and osh = "[example_shape]"]
  note t2 = set_inputs_error_kinds [where sei = checking_set_external_input and dq = False
      and s = example_executor and old = "[]" and inputs = "[example_tensor]"
      and outputs = "[example_tensor]" and ish = "[example_shape_rank1]"
      and osh = "[example_shape]"]
  note t3 = set_inputs_error_kinds [where sei = checking_set_external_input and dq = False
      and s = example_executor and old = "[]" and inputs = "[example_tensor]"
      and outputs = "[]" and ish = "[example_shape]" and osh = "[]"]
  note t4 = set_inputs_error_kinds [where sei = checking_set_external_input and dq = False
      and s = example_executor and old = "[]" and inputs = "[example_tensor]"
      and outputs = "[example_tensor]" and ish = "[example_shape]"
      and osh = "[example_shape]"]
  have r1: "set_inputs checking_set_external_input False example_executor
        [] [example_tensor] [] [example_shape]
      = (InvalidArgument, example_executor\<lparr>externals := []\<rparr>)"
    using t1 n_in' by blast
  have r2: "fst (set_inputs checking_set_external_input False example_executor
            [example_tensor] [example_tensor] [example_shape_rank1] [example_shape]) = Internal"
    using t2 n_in bad' by blast
  have r3: "set_inputs checking_set_external_input False example_executor
        [example_tensor] [] [example_shape] []
      = (InvalidArgument,
         example_executor\<lparr>externals := [\<lparr>ext_id = 0, ext_data = 4096, ext_shape = None\<rparr>]\<rparr>)"
    using t3 n_in good n_out' unfolding tab by blast
  have "set_inputs checking_set_external_input False example_executor
        [example_tensor] [example_tensor] [example_shape] [example_shape]
      = (Ok,
         example_executor\<lparr>externals :=
           [\<lparr>ext_id = 0, ext_data = 4096, ext_shape = None\<rparr>]
           @ [\<lparr>ext_id = 1, ext_data = 4096, ext_shape = None\<rparr>]\<rparr>)"
    using t4 n_in good n_out unfolding tab outs by blast
  then have r4: "set_inputs checking_set_external_input False example_executor
        [example_tensor] [example_tensor] [example_shape] [example_shape]
      = (Ok,
         example_executor\<lparr>externals :=
           [\<lparr>ext_id = 0, ext_data = 4096, ext_shape = None\<rparr>,
            \<lparr>ext_id = 1, ext_data = 4096, ext_shape = None\<rparr>]\<rparr>)"
    by simp
  show ?thesis using n_in' r1 n_in bad r2 n_out' r3 n_out r4 by blast
qed



section \<open>Running the compiled graph: error mapping and profiling\<close>

lemma forward_None:
  "runtime s = None \<Longrightarrow>
   forward N ctx w s = (Internal, s, w, [Log_error ''XNNPACK Delegate did not compile correctly''])"
  by (simp add: forward_def)

lemma forward_setup_failed:
  "runtime s = Some h \<Longrightarrow>
   fst (xnn_setup_runtime N h (externals s) w) \<noteq> xnn_status_success \<Longrightarrow>
   forward N ctx w s
     = (Internal, s, snd (xnn_setup_runtime N h (externals s) w),
        [Setup_runtime h (externals s), Log_error ''XNN Runtime setup failed with code: %s''])"
  by (cases "xnn_setup_runtime N h (externals s) w") (simp add: forward_def)

lemma forward_invoked:
  assumes "runtime s = Some h"
    and "fst (xnn_setup_runtime N h (externals s) w) = xnn_status_success"
  shows "forward N ctx w s
     = (if fst (xnn_invoke_runtime N h (snd (xnn_setup_runtime N h (externals s) w)))
             = xnn_status_success
        then Ok else Internal,
        s\<lparr>profiler :=
            snd (profiler_end N
                   (snd (xnn_invoke_runtime N h (snd (xnn_setup_runtime N h (externals s) w))))
                   (snd (profiler_start N ctx (snd (xnn_setup_runtime N h (externals s) w))
                           (profiler s))))\<rparr>,
        snd (xnn_invoke_runtime N h (snd (xnn_setup_runtime N h (externals s) w))),
        [Setup_runtime h (externals s), Profiler_start]
        @ profiling_log
            (fst (profiler_start N ctx (snd (xnn_setup_runtime N h (externals s) w))
                    (profiler s)))
            ''Failed to start profiling: %u.''
        @ [Invoke_runtime h, Profiler_end]
        @ profiling_log
            (fst (profiler_end N
                   (snd (xnn_invoke_runtime N h (snd (xnn_setup_runtime N h (externals s) w))))
                   (snd (profiler_start N ctx (snd (xnn_setup_runtime N h (externals s) w))
                           (profiler s)))))
            ''Failed to end profiling: %u.''
        @ (if fst (xnn_invoke_runtime N h (snd (xnn_setup_runtime N h (externals s) w)))
                = xnn_status_success
           then [] else [Log_error ''XNN Runtime invoke failed with code: %s'']))"
proof -
  obtain st w1 where a: "xnn_setup_runtime N h (externals s) w = (st, w1)"
    by (cases "xnn_setup_runtime N h (externals s) w")
  obtain e1 p1 where b: "profiler_start N ctx w1 (profiler s) = (e1, p1)"
    by (cases "profiler_start N ctx w1 (profiler s)")
  obtain st2 w2 where c: "xnn_invoke_runtime N h w1 = (st2, w2)"
    by (cases "xnn_invoke_runtime N h w1")
  obtain e2 p2 where d: "profiler_end N w2 p1 = (e2, p2)"
    by (cases "profiler_end N w2 p1")
  show ?thesis
    using assms by (simp add: forward_def Let_def a b c d)
qed

lemma calls_of_profiling_log [simp]: "calls_of (profiling_log e msg) = []"
  by (simp add: calls_of_def profiling_log_def)

lemma calls_of_Nil [simp]: "calls_of [] = []"
  by (simp add: calls_of_def)

lemma calls_of_Cons [simp]:
  "calls_of (e # es) = (if is_log e then calls_of es else e # calls_of es)"
  by (simp add: calls_of_def)

lemma calls_of_append [simp]: "calls_of (xs @ ys) = calls_of xs @ calls_of ys"
  by (simp add: calls_of_def)

lemma Invoke_not_in_profiling_log [simp]: "Invoke_runtime h \<notin> set (profiling_log e msg)"
  by (simp add: profiling_log_def)

text \<open>
  Claim C4. Without a runtime handle \<^verbatim>\<open>forward\<close> returns \<^verbatim>\<open>Internal\<close>, makes no call on the
  native runtime and leaves the executor and the native library as they were. With a
  handle \<open>h\<close> it first binds the accumulated external values (\<^verbatim>\<open>xnn_setup_runtime\<close> on \<open>h\<close> and
  the binding table); when that reports a status other than success it returns
  \<^verbatim>\<open>Internal\<close> with the native library in the state the setup left, the runtime not
  invoked. When the setup succeeds it invokes the runtime: the native library is left in
  the state that \<^verbatim>\<open>xnn_invoke_runtime\<close> makes of the state after the setup, the executor is
  unchanged but for its profiler, and the result is \<^verbatim>\<open>Ok\<close> when the invocation reports
  success and \<^verbatim>\<open>Internal\<close> otherwise. So \<^verbatim>\<open>forward\<close> returns \<^verbatim>\<open>Ok\<close> exactly when there is a handle
  and setup and invocation both report success, and \<^verbatim>\<open>Internal\<close> in every other case.
\<close>

theorem forward_error_mapping:
  "(runtime s = None \<longrightarrow>
      forward N ctx w s
        = (Internal, s, w, [Log_error ''XNNPACK Delegate did not compile correctly'']))
   \<and> (\<forall>h. runtime s = Some h
          \<and> fst (xnn_setup_runtime N h (externals s) w) \<noteq> xnn_status_success \<longrightarrow>
        forward N ctx w s
          = (Internal, s, snd (xnn_setup_runtime N h (externals s) w),
             [Setup_runtime h (externals s),
              Log_error ''XNN Runtime setup failed with code: %s'']))
   \<and> (\<forall>h. runtime s = Some h
          \<and> fst (xnn_setup_runtime N h (externals s) w) = xnn_status_success \<longrightarrow>
        fst (forward N ctx w s)
          = (if fst (xnn_invoke_runtime N h (snd (xnn_setup_runtime N h (externals s) w)))
                = xnn_status_success
             then Ok else Internal)
        \<and> fst (snd (snd (forward N ctx w s)))
          = snd (xnn_invoke_runtime N h (snd (xnn_setup_runtime N h (externals s) w)))
        \<and> (fst (snd (forward N ctx w s)))\<lparr>profiler := profiler s\<rparr> = s
        \<and> calls_of (snd (snd (snd (forward N ctx w s))))
          = [Setup_runtime h (externals s), Profiler_start, Invoke_runtime h, Profiler_end])
   \<and> (fst (forward N ctx w s) = Ok
        \<longleftrightarrow> (\<exists>h. runtime s = Some h
               \<and> fst (xnn_setup_runtime N h (externals s) w) = xnn_status_success
               \<and> fst (xnn_invoke_runtime N h (snd (xnn_setup_runtime N h (externals s) w)))
                   = xnn_status_success))
   \<and> (fst (forward N ctx w s) = Ok \<or> fst (forward N ctx w s) = Internal)"
proof (intro conjI impI allI)
  assume "runtime s = None"
  then show "forward N ctx w s
        = (Internal, s, w, [Log_error ''XNNPACK Delegate did not compile correctly''])"
    by (rule forward_None)
next
  fix h
  assume a: "runtime s = Some h
          \<and> fst (xnn_setup_runtime N h (externals s) w) \<noteq> xnn_status_success"
  show "forward N ctx w s
          = (Internal, s, snd (xnn_setup_runtime N h (externals s) w),
             [Setup_runtime h (externals s),
              Log_error ''XNN Runtime setup failed with code: %s''])"
    using forward_setup_failed [OF conjunct1 [OF a] conjunct2 [OF a]] .
next
  fix h
  assume a: "runtime s = Some h
          \<and> fst (xnn_setup_runtime N h (externals s) w) = xnn_status_success"
  note inv = forward_invoked [OF conjunct1 [OF a] conjunct2 [OF a], of ctx]
  show "fst (forward N ctx w s)
          = (if fst (xnn_invoke_runtime N h (snd (xnn_setup_runtime N h (externals s) w)))
                = xnn_status_success
             then Ok else Internal)"
    unfolding inv by simp
  show "fst (snd (snd (forward N ctx w s)))
          = snd (xnn_invoke_runtime N h (snd (xnn_setup_runtime N h (externals s) w)))"
    unfolding inv by simp
  show "(fst (snd (forward N ctx w s)))\<lparr>profiler := profiler s\<rparr> = s"
    unfolding inv by simp
  show "calls_of (snd (snd (snd (forward N ctx w s))))
          = [Setup_runtime h (externals s), Profiler_start, Invoke_runtime h, Profiler_end]"
    unfolding inv by simp
next
  show "fst (forward N ctx w s) = Ok
        \<longleftrightarrow> (\<exists>h. runtime s = Some h
               \<and> fst (xnn_setup_runtime N h (externals s) w) = xnn_status_success
               \<and> fst (xnn_invoke_runtime N h (snd (xnn_setup_runtime N h (externals s) w)))
                   = xnn_status_success)"
  proof (cases "runtime s")
    case None
    then show ?thesis by (simp add: forward_None)
  next
    case (Some h)
    show ?thesis
    proof (cases "fst (xnn_setup_runtime N h (externals s) w) = xnn_status_success")
      case True
      show ?thesis unfolding forward_invoked [OF Some True] using Some True by simp
    next
      case False
      show ?thesis unfolding forward_setup_failed [OF Some False] using Some False by simp
    qed
  qed
next
  show "fst (forward N ctx w s) = Ok \<or> fst (forward N ctx w s) = Internal"
  proof (cases "runtime s")
    case None
    then show ?thesis by (simp add: forward_None)
  next
    case (Some h)
    show ?thesis
    proof (cases "fst (xnn_setup_runtime N h (externals s) w) = xnn_status_success")
      case True
      show ?thesis unfolding forward_invoked [OF Some True] by simp
    next
      case False
      show ?thesis unfolding forward_setup_failed [OF Some False] by simp
    qed
  qed
qed

theorem forward_error_mapping_witness:
  "runtime (XNNExecutor_default ([] :: nat list)) = None
   \<and> forward example_natives () example_native_state (XNNExecutor_default [])
       = (Internal, XNNExecutor_default [], example_native_state,
          [Log_error ''XNNPACK Delegate did not compile correctly''])
   \<and> runtime (example_executor\<lparr>externals := []\<rparr>) = Some 7
   \<and> fst (xnn_setup_runtime example_natives 7 [] example_native_state) \<noteq> xnn_status_success
   \<and> forward example_natives () example_native_state (example_executor\<lparr>externals := []\<rparr>)
       = (Internal, example_executor\<lparr>externals := []\<rparr>, example_native_state,
          [Setup_runtime 7 [], Log_error ''XNN Runtime setup failed with code: %s''])
   \<and> runtime example_executor = Some 7
   \<and> fst (xnn_setup_runtime example_natives 7 (externals example_executor)
            example_native_state) = xnn_status_success
   \<and> fst (forward example_natives () example_native_state example_executor) = Ok
   \<and> fst (snd (snd (forward example_natives () example_native_state example_executor)))
       = \<lparr>bound = externals example_executor, invocations = 1, deleted = []\<rparr>
   \<and> fst (forward example_natives () example_native_state_used
            example_executor) = Internal
   \<and> fst (snd (snd (forward example_natives () example_native_state_used
                       example_executor)))
       = \<lparr>bound = externals example_executor, invocations = 2, deleted = []\<rparr>"
proof -
  note ex = example_natives_def example_executor_def example_native_state_def
    example_native_state_used_def
  let ?e0 = "example_executor\<lparr>externals := []\<rparr>"
  let ?w1 = "example_native_state_used"
  have a: "runtime (XNNExecutor_default ([] :: nat list)) = None"
    by (simp add: XNNExecutor_default_def)
  have b: "runtime example_executor = Some 7" and b0: "runtime ?e0 = Some 7"
    by (simp_all add: ex)
  have f: "fst (xnn_setup_runtime example_natives 7 [] example_native_state)
             \<noteq> xnn_status_success"
    and f': "fst (xnn_setup_runtime example_natives 7 (externals ?e0) example_native_state)
             \<noteq> xnn_status_success"
    and fs: "snd (xnn_setup_runtime example_natives 7 [] example_native_state)
             = example_native_state"
    and fe: "externals ?e0 = []"
    by (simp_all add: ex)
  have g: "fst (xnn_setup_runtime example_natives 7 (externals example_executor)
            example_native_state) = xnn_status_success"
    and g1: "fst (xnn_setup_runtime example_natives 7 (externals example_executor) ?w1)
             = xnn_status_success"
    by (simp_all add: ex)
  have i0: "xnn_invoke_runtime example_natives 7
              (snd (xnn_setup_runtime example_natives 7 (externals example_executor)
                      example_native_state))
            = (xnn_status_success,
               \<lparr>bound = externals example_executor, invocations = 1, deleted = []\<rparr>)"
    by (simp add: ex)
  have i1: "xnn_invoke_runtime example_natives 7
              (snd (xnn_setup_runtime example_natives 7 (externals example_executor) ?w1))
            = (xnn_status_invalid_state,
               \<lparr>bound = externals example_executor, invocations = 2, deleted = []\<rparr>)"
    by (simp add: ex)
  note t0 = forward_error_mapping [where s = "XNNExecutor_default []" and N = example_natives
      and ctx = "()" and w = example_native_state]
  note t1 = forward_error_mapping [where s = ?e0 and N = example_natives
      and ctx = "()" and w = example_native_state]
  note t2 = forward_error_mapping [where s = example_executor and N = example_natives
      and ctx = "()" and w = example_native_state]
  note t3 = forward_error_mapping [where s = example_executor and N = example_natives
      and ctx = "()" and w = ?w1]
  have r0: "forward example_natives () example_native_state (XNNExecutor_default [])
       = (Internal, XNNExecutor_default [], example_native_state,
          [Log_error ''XNNPACK Delegate did not compile correctly''])"
    using t0 a by blast
  have "forward example_natives () example_native_state ?e0
       = (Internal, ?e0,
          snd (xnn_setup_runtime example_natives 7 (externals ?e0) example_native_state),
          [Setup_runtime 7 (externals ?e0),
           Log_error ''XNN Runtime setup failed with code: %s''])"
    using t1 b0 f' by blast
  then have r1: "forward example_natives () example_native_state ?e0
       = (Internal, ?e0, example_native_state,
          [Setup_runtime 7 [], Log_error ''XNN Runtime setup failed with code: %s''])"
    unfolding fe fs .
  have r2: "fst (forward example_natives () example_native_state example_executor) = Ok
      \<and> fst (snd (snd (forward example_natives () example_native_state example_executor)))
       = \<lparr>bound = externals example_executor, invocations = 1, deleted = []\<rparr>"
    using t2 b g by (simp add: i0)
  have r3: "fst (forward example_natives () ?w1 example_executor) = Internal
      \<and> fst (snd (snd (forward example_natives () ?w1 example_executor)))
       = \<lparr>bound = externals example_executor, invocations = 2, deleted = []\<rparr>"
    using t3 b g1 by (simp add: i1)
  show ?thesis using a r0 b0 f r1 b g r2 r3 by blast
qed

text \<open>
  Claim C5. In every execution of \<^verbatim>\<open>forward\<close> that reaches the invocation (a handle is
  present and the setup succeeded) the profiler is started on the state the setup left,
  before the runtime is invoked, and stopped on the state the invocation left, after it,
  whatever the invocation reports: the profiler ends in the state that its stop makes of
  the state its start left, the calls are setup, start, invocation, stop in this order,
  a failure of start or stop adds a log line and nothing else, and the result is \<^verbatim>\<open>Ok\<close> or
  \<^verbatim>\<open>Internal\<close> by the invocation's status alone. In every execution, replacing the profiler's
  start and stop functions and its state by any others changes neither the returned error
  kind nor the state of the native library.
\<close>

theorem forward_profiling_brackets:
  "(\<forall>h. runtime s = Some h
        \<and> fst (xnn_setup_runtime N h (externals s) w) = xnn_status_success \<longrightarrow>
      forward N ctx w s
        = (if fst (xnn_invoke_runtime N h (snd (xnn_setup_runtime N h (externals s) w)))
                = xnn_status_success
           then Ok else Internal,
           s\<lparr>profiler :=
               snd (profiler_end N
                      (snd (xnn_invoke_runtime N h
                              (snd (xnn_setup_runtime N h (externals s) w))))
                      (snd (profiler_start N ctx
                              (snd (xnn_setup_runtime N h (externals s) w)) (profiler s))))\<rparr>,
           snd (xnn_invoke_runtime N h (snd (xnn_setup_runtime N h (externals s) w))),
           [Setup_runtime h (externals s), Profiler_start]
           @ (if fst (profiler_start N ctx (snd (xnn_setup_runtime N h (externals s) w))
                        (profiler s)) \<noteq> Ok
              then [Log_error ''Failed to start profiling: %u.''] else [])
           @ [Invoke_runtime h, Profiler_end]
           @ (if fst (profiler_end N
                        (snd (xnn_invoke_runtime N h
                                (snd (xnn_setup_runtime N h (externals s) w))))
                        (snd (profiler_start N ctx
                                (snd (xnn_setup_runtime N h (externals s) w)) (profiler s))))
                  \<noteq> Ok
              then [Log_error ''Failed to end profiling: %u.''] else [])
           @ (if fst (xnn_invoke_runtime N h (snd (xnn_setup_runtime N h (externals s) w)))
                   = xnn_status_success
              then [] else [Log_error ''XNN Runtime invoke failed with code: %s''])))
   \<and> fst (forward (N\<lparr>profiler_start := ps, profiler_end := pe\<rparr>) ctx w (s\<lparr>profiler := p\<rparr>))
       = fst (forward N ctx w s)
   \<and> fst (snd (snd (forward (N\<lparr>profiler_start := ps, profiler_end := pe\<rparr>) ctx w
                        (s\<lparr>profiler := p\<rparr>))))
       = fst (snd (snd (forward N ctx w s)))"
proof (intro conjI impI allI)
  fix h
  assume a: "runtime s = Some h
        \<and> fst (xnn_setup_runtime N h (externals s) w) = xnn_status_success"
  show "forward N ctx w s
        = (if fst (xnn_invoke_runtime N h (snd (xnn_setup_runtime N h (externals s) w)))
                = xnn_status_success
           then Ok else Internal,
           s\<lparr>profiler :=
               snd (profiler_end N
                      (snd (xnn_invoke_runtime N h
                              (snd (xnn_setup_runtime N h (externals s) w))))
                      (snd (profiler_start N ctx
                              (snd (xnn_setup_runtime N h (externals s) w)) (profiler s))))\<rparr>,
           snd (xnn_invoke_runtime N h (snd (xnn_setup_runtime N h (externals s) w))),
           [Setup_runtime h (externals s), Profiler_start]
           @ (if fst (profiler_start N ctx (snd (xnn_setup_runtime N h (externals s) w))
                        (profiler s)) \<noteq> Ok
              then [Log_error ''Failed to start profiling: %u.''] else [])
           @ [Invoke_runtime h, Profiler_end]
           @ (if fst (profiler_end N
                        (snd (xnn_invoke_runtime N h
                                (snd (xnn_setup_runtime N h (externals s) w))))
                        (snd (profiler_start N ctx
                                (snd (xnn_setup_runtime N h (externals s) w)) (profiler s))))
                  \<noteq> Ok
              then [Log_error ''Failed to end profiling: %u.''] else [])
           @ (if fst (xnn_invoke_runtime N h (snd (xnn_setup_runtime N h (externals s) w)))
                   = xnn_status_success
              then [] else [Log_error ''XNN Runtime invoke failed with code: %s'']))"
    unfolding forward_invoked [OF conjunct1 [OF a] conjunct2 [OF a], of ctx]
    by (simp add: profiling_log_def)
next
  let ?N = "N\<lparr>profiler_start := ps, profiler_end := pe\<rparr>"
  let ?s = "s\<lparr>profiler := p\<rparr>"
  have both: "fst (forward ?N ctx w ?s) = fst (forward N ctx w s)
      \<and> fst (snd (snd (forward ?N ctx w ?s))) = fst (snd (snd (forward N ctx w s)))"
  proof (cases "runtime s")
    case None
    then show ?thesis by (simp add: forward_None)
  next
    case (Some h)
    then have h': "runtime ?s = Some h" by simp
    show ?thesis
    proof (cases "fst (xnn_setup_runtime N h (externals s) w) = xnn_status_success")
      case True
      then have T': "fst (xnn_setup_runtime ?N h (externals ?s) w) = xnn_status_success"
        by simp
      show ?thesis
        unfolding forward_invoked [OF Some True] forward_invoked [OF h' T'] by simp
    next
      case False
      then have F': "fst (xnn_setup_runtime ?N h (externals ?s) w) \<noteq> xnn_status_success"
        by simp
      show ?thesis
        unfolding forward_setup_failed [OF Some False] forward_setup_failed [OF h' F'] by simp
    qed
  qed
  show "fst (forward ?N ctx w ?s) = fst (forward N ctx w s)" using both by simp
  show "fst (snd (snd (forward ?N ctx w ?s))) = fst (snd (snd (forward N ctx w s)))"
    using both by simp
qed

theorem forward_profiling_brackets_witness:
  "runtime example_executor = Some 7
   \<and> fst (xnn_setup_runtime example_natives 7 (externals example_executor)
            example_native_state_used) = xnn_status_success
   \<and> forward example_natives () example_native_state_used example_executor
       = (Internal, example_executor\<lparr>profiler := [1, 2]\<rparr>,
          \<lparr>bound = externals example_executor, invocations = 2, deleted = []\<rparr>,
          [Setup_runtime 7 (externals example_executor), Profiler_start,
           Log_error ''Failed to start profiling: %u.'', Invoke_runtime 7, Profiler_end,
           Log_error ''XNN Runtime invoke failed with code: %s''])
   \<and> fst (xnn_setup_runtime example_natives 7 (externals example_executor)
            example_native_state) = xnn_status_success
   \<and> forward example_natives () example_native_state example_executor
       = (Ok, example_executor\<lparr>profiler := [0, 1]\<rparr>,
          \<lparr>bound = externals example_executor, invocations = 1, deleted = []\<rparr>,
          [Setup_runtime 7 (externals example_executor), Profiler_start,
           Log_error ''Failed to start profiling: %u.'', Invoke_runtime 7, Profiler_end])"
proof -
  note ex = example_natives_def example_executor_def example_native_state_def
    example_native_state_used_def
  let ?w1 = "example_native_state_used"
  have b: "runtime example_executor = Some 7" by (simp add: ex)
  have g: "fst (xnn_setup_runtime example_natives 7 (externals example_executor)
            example_native_state) = xnn_status_success"
    and g1: "fst (xnn_setup_runtime example_natives 7 (externals example_executor) ?w1)
             = xnn_status_success"
    by (simp_all add: ex)
  note t0 = forward_profiling_brackets [where s = example_executor and N = example_natives
      and ctx = "()" and w = example_native_state]
  note t1 = forward_profiling_brackets [where s = example_executor and N = example_natives
      and ctx = "()" and w = ?w1]
  from t1 b g1 have "forward example_natives () ?w1 example_executor
        = (if fst (xnn_invoke_runtime example_natives 7
                     (snd (xnn_setup_runtime example_natives 7 (externals example_executor) ?w1)))
                = xnn_status_success
           then Ok else Internal,
           example_executor\<lparr>profiler :=
               snd (profiler_end example_natives
                      (snd (xnn_invoke_runtime example_natives 7
                              (snd (xnn_setup_runtime example_natives 7
                                      (externals example_executor) ?w1))))
                      (snd (profiler_start example_natives ()
                              (snd (xnn_setup_runtime example_natives 7
                                      (externals example_executor) ?w1))
                              (profiler example_executor))))\<rparr>,
           snd (xnn_invoke_runtime example_natives 7
                  (snd (xnn_setup_runtime example_natives 7 (externals example_executor) ?w1))),
           [Setup_runtime 7 (externals example_executor), Profiler_start]
           @ (if fst (profiler_start example_natives ()
                        (snd (xnn_setup_runtime example_natives 7
                                (externals example_executor) ?w1))
                        (profiler example_executor)) \<noteq> Ok
              then [Log_error ''Failed to start profiling: %u.''] else [])
           @ [Invoke_runtime 7, Profiler_end]
           @ (if fst (profiler_end example_natives
                        (snd (xnn_invoke_runtime example_natives 7
                                (snd (xnn_setup_runtime example_natives 7
                                        (externals example_executor) ?w1))))
                        (snd (profiler_start example_natives ()
                                (snd (xnn_setup_runtime example_natives 7
                                        (externals example_executor) ?w1))
                                (profiler example_executor))))
                  \<noteq> Ok
              then [Log_error ''Failed to end profiling: %u.''] else [])
           @ (if fst (xnn_invoke_runtime example_natives 7
                        (snd (xnn_setup_runtime example_natives 7
                                (externals example_executor) ?w1)))
                   = xnn_status_success
              then [] else [Log_error ''XNN Runtime invoke failed with code: %s'']))"
    by blast
  then have r1: "forward example_natives () ?w1 example_executor
       = (Internal, example_executor\<lparr>profiler := [1, 2]\<rparr>,
          \<lparr>bound = externals example_executor, invocations = 2, deleted = []\<rparr>,
          [Setup_runtime 7 (externals example_executor), Profiler_start,
           Log_error ''Failed to start profiling: %u.'', Invoke_runtime 7, Profiler_end,
           Log_error ''XNN Runtime invoke failed with code: %s''])"
    by (simp add: ex)
  from t0 b g have "forward example_natives () example_native_state example_executor
        = (if fst (xnn_invoke_runtime example_natives 7
                     (snd (xnn_setup_runtime example_natives 7 (externals example_executor)
                             example_native_state)))
                = xnn_status_success
           then Ok else Internal,
           example_executor\<lparr>profiler :=
               snd (profiler_end example_natives
                      (snd (xnn_invoke_runtime example_natives 7
                              (snd (xnn_setup_runtime example_natives 7
                                      (externals example_executor) example_native_state))))
                      (snd (profiler_start example_natives ()
                              (snd (xnn_setup_runtime example_natives 7
                                      (externals example_executor) example_native_state))
                              (profiler example_executor))))\<rparr>,
           snd (xnn_invoke_runtime example_natives 7
                  (snd (xnn_setup_runtime example_natives 7 (externals example_executor)
                          example_native_state))),
           [Setup_runtime 7 (externals example_executor), Profiler_start]
           @ (if fst (profiler_start example_natives ()
                        (snd (xnn_setup_runtime example_natives 7
                                (externals example_executor) example_native_state))
                        (profiler example_executor)) \<noteq> Ok
              then [Log_error ''Failed to start profiling: %u.''] else [])
           @ [Invoke_runtime 7, Profiler_end]
           @ (if fst (profiler_end example_natives
                        (snd (xnn_invoke_runtime example_natives 7
                                (snd (xnn_setup_runtime example_natives 7
                                        (externals example_executor) example_native_state))))
                        (snd (profiler_start example_natives ()
                                (snd (xnn_setup_runtime example_natives 7
                                        (externals example_executor) example_native_state))
                                (profiler example_executor))))
                  \<noteq> Ok
              then [Log_error ''Failed to end profiling: %u.''] else [])
           @ (if fst (xnn_invoke_runtime example_natives 7
                        (snd (xnn_setup_runtime example_natives 7
                                (externals example_executor) example_native_state)))
                   = xnn_status_success
              then [] else [Log_error ''XNN Runtime invoke failed with code: %s'']))"
    by blast
  then have r0: "forward example_natives () example_native_state example_executor
       = (Ok, example_executor\<lparr>profiler := [0, 1]\<rparr>,
          \<lparr>bound = externals example_executor, invocations = 1, deleted = []\<rparr>,
          [Setup_runtime 7 (externals example_executor), Profiler_start,
           Log_error ''Failed to start profiling: %u.'', Invoke_runtime 7, Profiler_end])"
    by (simp add: ex)
  show ?thesis using b g1 r1 g r0 by blast
qed

section \<open>Resizing an output tensor: rank and shape\<close>

lemma same_shape_from_iff:
  "same_shape_from of_sizes t sh n i b
     = (b \<and> (\<forall>j. i \<le> j \<and> j < n \<longrightarrow> of_sizes (sizes t ! j) = dim sh ! j))"
proof (induction of_sizes t sh n i b rule: same_shape_from.induct)
  case (1 of_sizes t sh n i b)
  show ?case
  proof (cases "i < n \<and> b")
    case False
    then show ?thesis by (subst same_shape_from.simps) auto
  next
    case True
    have "same_shape_from of_sizes t sh n i b
          = same_shape_from of_sizes t sh n (Suc i) (of_sizes (sizes t ! i) = dim sh ! i)"
      using True by (subst same_shape_from.simps) simp
    also have "\<dots> = (of_sizes (sizes t ! i) = dim sh ! i
                   \<and> (\<forall>j. Suc i \<le> j \<and> j < n \<longrightarrow> of_sizes (sizes t ! j) = dim sh ! j))"
      using "1.IH" [OF True] .
    also have "\<dots> = (b \<and> (\<forall>j. i \<le> j \<and> j < n \<longrightarrow> of_sizes (sizes t ! j) = dim sh ! j))"
    proof -
      have "i \<le> j \<longleftrightarrow> j = i \<or> Suc i \<le> j" for j by arith
      then show ?thesis using True by auto
    qed
    finally show ?thesis .
  qed
qed

lemma expected_output_size_from_eq:
  "expected_output_size_from to_sizes sh n i acc
     = acc @ map (\<lambda>j. to_sizes (dim sh ! j)) [i..<n]"
proof (induction to_sizes sh n i acc rule: expected_output_size_from.induct)
  case (1 to_sizes sh n i acc)
  show ?case
  proof (cases "i < n")
    case False
    then show ?thesis by (subst expected_output_size_from.simps) simp
  next
    case True
    then show ?thesis
      using "1.IH" [OF True]
      by (subst expected_output_size_from.simps) (simp add: upt_conv_Cons)
  qed
qed

lemma map_nth_take: "n \<le> length xs \<Longrightarrow> map (\<lambda>j. f (xs ! j)) [0..<n] = map f (take n xs)"
  by (simp add: list_eq_iff_nth_eq)

lemma same_shape_take:
  assumes "n \<le> length ds" and "length ss = n"
  shows "(\<forall>j. j < n \<longrightarrow> g (ss ! j) = ds ! j) = (map g ss = take n ds)"
  using assms by (auto simp: list_eq_iff_nth_eq)

lemma resizeOutput_cases:
  assumes "num_dims sh \<le> length (dim sh)"
  shows "resizeOutput to_sizes of_sizes rt t sh =
     (if length (sizes t) \<noteq> num_dims sh then (NotSupported, t)
      else if map of_sizes (sizes t) = take (num_dims sh) (dim sh) then (Ok, t)
      else rt t (map to_sizes (take (num_dims sh) (dim sh))))"
proof (cases "length (sizes t) = num_dims sh")
  case False
  then show ?thesis by (simp add: resizeOutput_def)
next
  case True
  have s: "same_shape_from of_sizes t sh (num_dims sh) 0 True
           = (map of_sizes (sizes t) = take (num_dims sh) (dim sh))"
    using same_shape_take [OF assms True, of of_sizes] by (simp add: same_shape_from_iff)
  have e: "expected_output_size_from to_sizes sh (num_dims sh) 0 []
           = map to_sizes (take (num_dims sh) (dim sh))"
    using map_nth_take [OF assms] by (simp add: expected_output_size_from_eq)
  show ?thesis using True by (simp add: resizeOutput_def s e)
qed

text \<open>
  Claim C2 as stated fails where \<^verbatim>\<open>SizesType\<close> is narrower than \<^verbatim>\<open>size_t\<close>. With a signed
  32-bit \<^verbatim>\<open>SizesType\<close>, a tensor of shape [1, 4] and the target shape [4294967298, 3] have
  the same rank and differ; \<^verbatim>\<open>static_cast\<close> turns the target into [2, 3], the resize
  succeeds, and the tensor then reports [2, 3], which is not the target.
\<close>

theorem resizeOutput_truncation_counterexample:
  "num_dims example_shape_wide \<le> length (dim example_shape_wide)
   \<and> length (sizes example_tensor32) = num_dims example_shape_wide
   \<and> map size_t_of_int32 (sizes example_tensor32)
       \<noteq> take (num_dims example_shape_wide) (dim example_shape_wide)
   \<and> resizeOutput static_cast_int32 size_t_of_int32 (example_resize_tensor size_t_of_int32)
        example_tensor32 example_shape_wide
      = (Ok, example_tensor32\<lparr>sizes := [2, 3]\<rparr>)
   \<and> map size_t_of_int32
         (sizes (snd (resizeOutput static_cast_int32 size_t_of_int32
                        (example_resize_tensor size_t_of_int32)
                        example_tensor32 example_shape_wide))) = [2, 3]
   \<and> take (num_dims example_shape_wide) (dim example_shape_wide) = [4294967298, 3]
   \<and> map size_t_of_int32
         (sizes (snd (resizeOutput static_cast_int32 size_t_of_int32
                        (example_resize_tensor size_t_of_int32)
                        example_tensor32 example_shape_wide)))
       \<noteq> take (num_dims example_shape_wide) (dim example_shape_wide)"
proof -
  note ex = example_tensor32_def example_shape_wide_def
  have wf: "num_dims example_shape_wide \<le> length (dim example_shape_wide)"
    by (simp add: ex)
  have tk: "take (num_dims example_shape_wide) (dim example_shape_wide) = [4294967298, 3]"
    by (simp add: ex)
  have rk: "length (sizes example_tensor32) = num_dims example_shape_wide"
    by (simp add: ex)
  have df: "map size_t_of_int32 (sizes example_tensor32) \<noteq> [4294967298, 3]"
    by (simp add: ex size_t_of_int32_def)
  have cast: "map static_cast_int32 [4294967298, 3] = [2, 3]"
    by (simp add: static_cast_int32_def)
  have readback: "map size_t_of_int32 [2, 3] = [2, 3]"
    by (simp add: size_t_of_int32_def)
  have rs: "example_resize_tensor size_t_of_int32 example_tensor32 [2, 3]
            = (Ok, example_tensor32\<lparr>sizes := [2, 3]\<rparr>)"
    by (simp add: example_resize_tensor_def size_t_of_int32_def ex)
  have r: "resizeOutput static_cast_int32 size_t_of_int32 (example_resize_tensor size_t_of_int32)
        example_tensor32 example_shape_wide
      = (Ok, example_tensor32\<lparr>sizes := [2, 3]\<rparr>)"
  proof -
    have df': "map size_t_of_int32 (sizes example_tensor32)
                 \<noteq> take (num_dims example_shape_wide) (dim example_shape_wide)"
      using df unfolding tk .
    have "resizeOutput static_cast_int32 size_t_of_int32
            (example_resize_tensor size_t_of_int32) example_tensor32 example_shape_wide
          = example_resize_tensor size_t_of_int32 example_tensor32
              (map static_cast_int32
                 (take (num_dims example_shape_wide) (dim example_shape_wide)))"
      using rk df' by (simp only: resizeOutput_cases [OF wf] if_False if_True simp_thms)
    then show ?thesis unfolding tk cast rs .
  qed
  have ne: "[2, 3] \<noteq> [4294967298, 3 :: nat]" by simp
  have sz: "sizes (snd (Ok, example_tensor32\<lparr>sizes := [2, 3]\<rparr>)) = [2, 3]" by simp
  have rd: "map size_t_of_int32
              (sizes (snd (resizeOutput static_cast_int32 size_t_of_int32
                        (example_resize_tensor size_t_of_int32)
                        example_tensor32 example_shape_wide))) = [2, 3]"
    unfolding r sz readback ..
  have df': "map size_t_of_int32 (sizes example_tensor32)
               \<noteq> take (num_dims example_shape_wide) (dim example_shape_wide)"
    using df unfolding tk .
  have nq: "map size_t_of_int32
              (sizes (snd (resizeOutput static_cast_int32 size_t_of_int32
                        (example_resize_tensor size_t_of_int32)
                        example_tensor32 example_shape_wide)))
            \<noteq> take (num_dims example_shape_wide) (dim example_shape_wide)"
    unfolding rd tk using ne .
  show ?thesis
    using wf rk df' r rd tk nq by blast
qed

text \<open>
  Claim C2, amended. \<^verbatim>\<open>resizeOutput\<close> returns \<^verbatim>\<open>NotSupported\<close> and leaves the tensor alone
  when the tensor's rank is not the shape's \<^verbatim>\<open>num_dims\<close>. For a shape whose \<^verbatim>\<open>num_dims\<close> is
  within its array: it returns \<^verbatim>\<open>Ok\<close> and leaves the tensor alone, whatever \<^verbatim>\<open>resize_tensor\<close>
  would do, when the ranks are equal and every dimension matches; and when the ranks are
  equal and a dimension differs, its result is that of \<^verbatim>\<open>resize_tensor\<close> on the tensor and
  the target dimensions converted to \<^verbatim>\<open>SizesType\<close>. Provided \<^verbatim>\<open>resize_tensor\<close> installs the
  sizes it is given whenever it returns \<^verbatim>\<open>Ok\<close>, a successful \<^verbatim>\<open>resizeOutput\<close> leaves a tensor
  whose sizes are the target dimensions converted to \<^verbatim>\<open>SizesType\<close>; the shape it reports is
  the target shape when the conversion loses nothing on the target dimensions.
\<close>

theorem resizeOutput_rank_and_shape:
  "(length (sizes t) \<noteq> num_dims sh
      \<longrightarrow> resizeOutput to_sizes of_sizes rt t sh = (NotSupported, t))
   \<and> (num_dims sh \<le> length (dim sh) \<and> length (sizes t) = num_dims sh
        \<and> map of_sizes (sizes t) = take (num_dims sh) (dim sh)
      \<longrightarrow> resizeOutput to_sizes of_sizes rt t sh = (Ok, t))
   \<and> (num_dims sh \<le> length (dim sh) \<and> length (sizes t) = num_dims sh
        \<and> map of_sizes (sizes t) \<noteq> take (num_dims sh) (dim sh)
      \<longrightarrow> resizeOutput to_sizes of_sizes rt t sh
            = rt t (map to_sizes (take (num_dims sh) (dim sh)))
          \<and> ((\<forall>u new u'. rt u new = (Ok, u') \<longrightarrow> sizes u' = new)
               \<and> fst (resizeOutput to_sizes of_sizes rt t sh) = Ok
             \<longrightarrow> sizes (snd (resizeOutput to_sizes of_sizes rt t sh))
                   = map to_sizes (take (num_dims sh) (dim sh))
                 \<and> ((\<forall>d \<in> set (take (num_dims sh) (dim sh)). of_sizes (to_sizes d) = d)
                    \<longrightarrow> map of_sizes (sizes (snd (resizeOutput to_sizes of_sizes rt t sh)))
                          = take (num_dims sh) (dim sh))))"
proof (intro conjI impI)
  assume "length (sizes t) \<noteq> num_dims sh"
  then show "resizeOutput to_sizes of_sizes rt t sh = (NotSupported, t)"
    by (simp add: resizeOutput_def)
next
  assume "num_dims sh \<le> length (dim sh) \<and> length (sizes t) = num_dims sh
        \<and> map of_sizes (sizes t) = take (num_dims sh) (dim sh)"
  then show "resizeOutput to_sizes of_sizes rt t sh = (Ok, t)"
    by (simp add: resizeOutput_cases)
next
  assume a: "num_dims sh \<le> length (dim sh) \<and> length (sizes t) = num_dims sh
        \<and> map of_sizes (sizes t) \<noteq> take (num_dims sh) (dim sh)"
  show r: "resizeOutput to_sizes of_sizes rt t sh
            = rt t (map to_sizes (take (num_dims sh) (dim sh)))"
    using a by (simp add: resizeOutput_cases)
  assume b: "(\<forall>u new u'. rt u new = (Ok, u') \<longrightarrow> sizes u' = new)
               \<and> fst (resizeOutput to_sizes of_sizes rt t sh) = Ok"
  show c: "sizes (snd (resizeOutput to_sizes of_sizes rt t sh))
                   = map to_sizes (take (num_dims sh) (dim sh))"
    using b unfolding r
    by (metis prod.collapse)
  assume d: "\<forall>d \<in> set (take (num_dims sh) (dim sh)). of_sizes (to_sizes d) = d"
  show "map of_sizes (sizes (snd (resizeOutput to_sizes of_sizes rt t sh)))
                          = take (num_dims sh) (dim sh)"
    unfolding c using d by (simp add: map_idI)
qed

theorem resizeOutput_rank_and_shape_witness:
  "length (sizes example_tensor32) \<noteq> num_dims example_shape_rank1
   \<and> resizeOutput static_cast_int32 size_t_of_int32 (example_resize_tensor size_t_of_int32)
        example_tensor32 example_shape_rank1
       = (NotSupported, example_tensor32)
   \<and> num_dims example_shape \<le> length (dim example_shape)
   \<and> length (sizes example_tensor32) = num_dims example_shape
   \<and> map size_t_of_int32 (sizes example_tensor32)
       = take (num_dims example_shape) (dim example_shape)
   \<and> resizeOutput static_cast_int32 size_t_of_int32 (example_resize_tensor size_t_of_int32)
        example_tensor32 example_shape
       = (Ok, example_tensor32)
   \<and> num_dims example_shape_2x3 \<le> length (dim example_shape_2x3)
   \<and> length (sizes example_tensor32) = num_dims example_shape_2x3
   \<and> map size_t_of_int32 (sizes example_tensor32)
       \<noteq> take (num_dims example_shape_2x3) (dim example_shape_2x3)
   \<and> resizeOutput static_cast_int32 size_t_of_int32 (example_resize_tensor size_t_of_int32)
        example_tensor32 example_shape_2x3
       = (Ok, example_tensor32\<lparr>sizes := [2, 3]\<rparr>)
   \<and> map size_t_of_int32
         (sizes (snd (resizeOutput static_cast_int32 size_t_of_int32
                        (example_resize_tensor size_t_of_int32)
                        example_tensor32 example_shape_2x3))) = [2, 3]"
proof -
  note ex = example_tensor32_def example_shape_def example_shape_rank1_def
    example_shape_2x3_def
  let ?rt = "example_resize_tensor size_t_of_int32"
  have w2: "num_dims example_shape \<le> length (dim example_shape)"
    and w3: "num_dims example_shape_2x3 \<le> length (dim example_shape_2x3)"
    by (simp_all add: ex)
  have h1: "length (sizes example_tensor32) \<noteq> num_dims example_shape_rank1"
    and h2: "length (sizes example_tensor32) = num_dims example_shape"
    and h3: "map size_t_of_int32 (sizes example_tensor32)
               = take (num_dims example_shape) (dim example_shape)"
    and h4: "length (sizes example_tensor32) = num_dims example_shape_2x3"
    and h5: "map size_t_of_int32 (sizes example_tensor32)
               \<noteq> take (num_dims example_shape_2x3) (dim example_shape_2x3)"
    and h6: "take (num_dims example_shape_2x3) (dim example_shape_2x3) = [2, 3]"
    by (simp_all add: ex size_t_of_int32_def)
  have contract: "\<forall>u new u'. ?rt u new = (Ok, u') \<longrightarrow> sizes u' = new"
    by (auto simp: example_resize_tensor_def split: if_splits)
  have roundtrip: "\<forall>d \<in> set (take (num_dims example_shape_2x3) (dim example_shape_2x3)).
                     size_t_of_int32 (static_cast_int32 d) = d"
    unfolding h6 by (simp add: size_t_of_int32_def static_cast_int32_def)
  have readback: "map size_t_of_int32 [2, 3] = [2, 3]"
    by (simp add: size_t_of_int32_def)
  have cast: "map static_cast_int32 [2, 3] = [2, 3]"
    by (simp add: static_cast_int32_def)
  have rt: "?rt example_tensor32
              (map static_cast_int32 (take (num_dims example_shape_2x3) (dim example_shape_2x3)))
            = (Ok, example_tensor32\<lparr>sizes := [2, 3]\<rparr>)"
    unfolding h6 cast by (simp add: example_resize_tensor_def size_t_of_int32_def ex)
  note t1 = resizeOutput_rank_and_shape [where t = example_tensor32
      and sh = example_shape_rank1 and to_sizes = static_cast_int32
      and of_sizes = size_t_of_int32 and rt = ?rt]
  note t2 = resizeOutput_rank_and_shape [where t = example_tensor32
      and sh = example_shape and to_sizes = static_cast_int32
      and of_sizes = size_t_of_int32 and rt = ?rt]
  note t3 = resizeOutput_rank_and_shape [where t = example_tensor32
      and sh = example_shape_2x3 and to_sizes = static_cast_int32
      and of_sizes = size_t_of_int32 and rt = ?rt]
  have r1: "resizeOutput static_cast_int32 size_t_of_int32 ?rt example_tensor32
              example_shape_rank1 = (NotSupported, example_tensor32)"
    using t1 h1 by blast
  have r2: "resizeOutput static_cast_int32 size_t_of_int32 ?rt example_tensor32
              example_shape = (Ok, example_tensor32)"
    using t2 w2 h2 h3 by blast
  have "resizeOutput static_cast_int32 size_t_of_int32 ?rt example_tensor32 example_shape_2x3
        = ?rt example_tensor32
            (map static_cast_int32 (take (num_dims example_shape_2x3) (dim example_shape_2x3)))"
    using t3 w3 h4 h5 by blast
  then have r3: "resizeOutput static_cast_int32 size_t_of_int32 ?rt example_tensor32
              example_shape_2x3 = (Ok, example_tensor32\<lparr>sizes := [2, 3]\<rparr>)"
    unfolding rt .
  have r4: "map size_t_of_int32
         (sizes (snd (resizeOutput static_cast_int32 size_t_of_int32 ?rt
                        example_tensor32 example_shape_2x3))) = [2, 3]"
  proof -
    have okfact: "fst (resizeOutput static_cast_int32 size_t_of_int32 ?rt example_tensor32
                    example_shape_2x3) = Ok"
      by (simp add: r3)
    have "map size_t_of_int32
            (sizes (snd (resizeOutput static_cast_int32 size_t_of_int32 ?rt
                           example_tensor32 example_shape_2x3)))
          = take (num_dims example_shape_2x3) (dim example_shape_2x3)"
      using t3 w3 h4 h5 contract okfact roundtrip by blast
    then show ?thesis unfolding h6 .
  qed
  show ?thesis using h1 r1 w2 h2 h3 r2 w3 h4 h5 r3 r4 by blast
qed

section \<open>The module facade: get and forward\<close>

text \<open>
  Claim C6. \<^verbatim>\<open>Module::get(name, inputs)\<close> propagates the error of a failed \<^verbatim>\<open>execute\<close>,
  returns \<^verbatim>\<open>InvalidArgument\<close> when \<^verbatim>\<open>execute\<close> succeeds with no output, and returns the first
  output of \<^verbatim>\<open>execute\<close> when there is at least one.
\<close>

theorem Module_get_first_output:
  "(\<forall>error m1. execute m method_name input = (Inl error, m1)
       \<longrightarrow> Module_get execute m method_name input = (Inl error, m1))
   \<and> (\<forall>m1. execute m method_name input = (Inr [], m1)
       \<longrightarrow> Module_get execute m method_name input = (Inl InvalidArgument, m1))
   \<and> (\<forall>x xs m1. execute m method_name input = (Inr (x # xs), m1)
       \<longrightarrow> Module_get execute m method_name input = (Inr x, m1))"
  by (simp add: Module_get_def)

theorem Module_get_first_output_witness:
  "identity_program_execute 0 ''backward'' [4, 5] = (Inl NotFound, 0)
   \<and> Module_get identity_program_execute 0 ''backward'' [4, 5] = (Inl NotFound, 0)
   \<and> identity_program_execute 0 ''forward'' [] = (Inr [], 1)
   \<and> Module_get identity_program_execute 0 ''forward'' [] = (Inl InvalidArgument, 1)
   \<and> identity_program_execute 0 ''forward'' [4, 5] = (Inr [4, 5], 1)
   \<and> Module_get identity_program_execute 0 ''forward'' [4, 5] = (Inr 4, 1)"
proof -
  have a: "identity_program_execute 0 ''backward'' [4, 5] = (Inl NotFound, 0)"
    by (simp add: identity_program_execute_def)
  have b: "identity_program_execute 0 ''forward'' [] = (Inr [], 1)"
    by (simp add: identity_program_execute_def)
  have c: "identity_program_execute 0 ''forward'' [4, 5] = (Inr [4, 5], 1)"
    by (simp add: identity_program_execute_def)
  show ?thesis
    using a b c
      Module_get_first_output [of identity_program_execute 0 "''backward''" "[4, 5]"]
      Module_get_first_output [of identity_program_execute 0 "''forward''" "[]"]
      Module_get_first_output [of identity_program_execute 0 "''forward''" "[4, 5]"]
    by simp
qed

text \<open>
  Claim C7. \<^verbatim>\<open>Module::forward(input)\<close> is \<^verbatim>\<open>execute("forward", input)\<close>, result and module
  state alike; \<^verbatim>\<open>forward()\<close> is \<^verbatim>\<open>execute("forward", {})\<close>.
\<close>

theorem Module_forward_is_execute:
  "Module_forward execute m input = execute m ''forward'' input
   \<and> Module_forward_no_input execute m = execute m ''forward'' []
   \<and> Module_forward_no_input execute m = Module_execute_no_input execute m ''forward''"
  by (simp add: Module_forward_def Module_forward_no_input_def Module_execute_no_input_def)

end
